theory Spec2Isabelle
  imports "HOL-Library.Log_Nat"
begin

section \<open>Data model\<close>

text \<open>
  The Go structs of the controller are records, Go strings and byte slices are
  \<open>string\<close>, a nil-able pointer is an \<open>option\<close>, and a Go \<open>error\<close> is a value of
  the datatype \<open>error\<close>. Condition types, statuses and reasons are Go string types and
  stay strings. Logging is not modelled.
\<close>

type_synonym bytes = string

text \<open>\<open>metav1.Time\<close>: an instant, in seconds.\<close>

type_synonym time = int

text \<open>
  \<open>cmapi.CertificateRequestCondition\<close> and \<open>v1.OriginIssuerCondition\<close> have the same
  five fields; one record serves both.
\<close>

record Condition =
  Type :: string
  Status :: string
  LastTransitionTime :: "time option"
  Reason :: string
  Message :: string

type_synonym CertificateRequestCondition = Condition
type_synonym OriginIssuerCondition = Condition

record NamespacedName =
  nnNamespace :: string
  nnName :: string

record ObjectReference =
  refName :: string
  refKind :: string
  refGroup :: string

text \<open>\<open>Duration\<close> is a \<open>time.Duration\<close>: a signed count of nanoseconds.\<close>

record CertificateRequestSpec =
  Request :: bytes
  Duration :: "int option"
  IssuerRef :: ObjectReference
  IsCA :: bool

record CertificateRequestStatus =
  Conditions :: "CertificateRequestCondition list"
  Certificate :: bytes
  FailureTime :: "time option"

record CertificateRequest =
  crNamespace :: string
  crName :: string
  crSpec :: CertificateRequestSpec
  crStatus :: CertificateRequestStatus

record SecretKeySelector =
  skName :: string
  skKey :: string

record OriginIssuerAuthentication =
  ServiceKeyRef :: SecretKeySelector

record OriginIssuerSpec =
  Auth :: OriginIssuerAuthentication
  RequestType :: string

record OriginIssuerStatus =
  issConditions :: "OriginIssuerCondition list"

record OriginIssuer =
  issNamespace :: string
  issName :: string
  issSpec :: OriginIssuerSpec
  issStatus :: OriginIssuerStatus

record ClusterOriginIssuer =
  cissName :: string
  cissSpec :: OriginIssuerSpec
  cissStatus :: OriginIssuerStatus

record Secret =
  secretName :: string
  Data :: "string \<rightharpoonup> bytes"

record SignRequest =
  srHostnames :: "string list"
  srValidity :: int
  srType :: string
  srCSR :: string

record SignResponse =
  respId :: string
  respCertificate :: string

text \<open>The fields of an \<open>x509.CertificateRequest\<close> that \<open>Sign\<close> reads.\<close>

record X509CertificateRequest =
  DNSNames :: "string list"

record APIError =
  Code :: int
  apiMessage :: string
  RayID :: string

text \<open>
  Go errors. \<open>APIErr\<close> is a \<open>*cfapi.APIError\<close>, \<open>NotFoundErr\<close> a Kubernetes status error
  with reason NotFound, \<open>Opaque\<close> any other error with no inner error (also what
  \<open>fmt.Errorf\<close> builds without \<open>%w\<close>), and \<open>Wrapped prefix e\<close> what
  \<open>fmt.Errorf(prefix + "%w", e)\<close> builds: its \<open>Unwrap\<close> gives \<open>e\<close>.
\<close>

datatype error =
    APIErr APIError
  | NotFoundErr string
  | Opaque string
  | Wrapped string error

text \<open>Decimal rendering of an integer, as \<open>%d\<close> prints it.\<close>

fun showNat :: "nat \<Rightarrow> string" where
  "showNat n =
     (if n < 10 then [char_of (48 + n)]
      else showNat (n div 10) @ [char_of (48 + n mod 10)])"

declare showNat.simps [simp del]

definition showInt :: "int \<Rightarrow> string" where
  "showInt i = (if i < 0 then CHR ''-'' # showNat (nat (- i)) else showNat (nat i))"

text \<open>
  \<open>err.Error()\<close>. The format of \<open>cfapi.APIError\<close> is the one the controller's test
  expects.
\<close>

fun Error :: "error \<Rightarrow> string" where
  "Error (APIErr a) =
     ''Cloudflare API Error code='' @ showInt (Code a) @ '' message='' @ apiMessage a
       @ '' ray_id='' @ RayID a"
| "Error (NotFoundErr m) = m"
| "Error (Opaque m) = m"
| "Error (Wrapped prefix e) = prefix @ Error e"

text \<open>
  \<open>errors.As(err, &apiError)\<close> with \<open>apiError\<close> a \<open>*cfapi.APIError\<close>: the first API
  error on the \<open>Unwrap\<close> chain.
\<close>

fun errorsAsAPIError :: "error \<Rightarrow> APIError option" where
  "errorsAsAPIError (APIErr a) = Some a"
| "errorsAsAPIError (Wrapped prefix e) = errorsAsAPIError e"
| "errorsAsAPIError (NotFoundErr m) = None"
| "errorsAsAPIError (Opaque m) = None"

text \<open>\<open>apierrors.IsNotFound\<close>, which also looks along the \<open>Unwrap\<close> chain.\<close>

fun IsNotFound :: "error \<Rightarrow> bool" where
  "IsNotFound (NotFoundErr m) = True"
| "IsNotFound (Wrapped prefix e) = IsNotFound e"
| "IsNotFound (APIErr a) = False"
| "IsNotFound (Opaque m) = False"

section \<open>Go's arithmetic on durations\<close>

text \<open>
  A finite \<open>float64\<close> is a rational number, and an operation of Go on \<open>float64\<close> is the
  exact operation followed by rounding to the nearest representable number, ties to
  the even significand (IEEE 754 binary64). \<open>float64 x\<close> is that rounding: \<open>e\<close> is the
  binary exponent of \<open>x\<close>, not below that of the subnormal numbers, and the result is
  the multiple of \<open>2^(e-52)\<close> nearest to \<open>x\<close>. Overflow to infinity is left out: the
  numbers of this program stay far below \<open>math.MaxFloat64\<close>.
\<close>

definition roundHalfEven :: "rat \<Rightarrow> int" where
  "roundHalfEven y =
     (let f = \<lfloor>y\<rfloor>; r = y - of_int f
      in if r < 1 / 2 then f else if 1 / 2 < r then f + 1
         else if even f then f else f + 1)"

text \<open>For \<open>x > 0\<close>, the \<open>e\<close> with \<open>2^e \<le> x < 2^(e+1)\<close>, from the bit lengths of \<open>x\<close>'s fraction.\<close>

definition ilog2 :: "rat \<Rightarrow> int" where
  "ilog2 x =
     (case quotient_of x of
        (a, b) \<Rightarrow> (let k = bitlen a - bitlen b in if 2 powi k \<le> x then k else k - 1))"

definition float64 :: "rat \<Rightarrow> rat" where
  "float64 x =
     (if x = 0 then 0
      else (let e = max (ilog2 \<bar>x\<bar>) (- 1022); q = 2 powi (e - 52)
            in of_int (roundHalfEven (x / q)) * q))"

text \<open>Go's \<open>/\<close> and \<open>%\<close> on integers truncate toward zero.\<close>

definition goQuot :: "int \<Rightarrow> int \<Rightarrow> int" where
  "goQuot a b = sgn a * sgn b * (\<bar>a\<bar> div \<bar>b\<bar>)"

definition goRem :: "int \<Rightarrow> int \<Rightarrow> int" where
  "goRem a b = a - b * goQuot a b"

text \<open>\<open>time.Hour\<close>, in nanoseconds.\<close>

definition Hour :: int where
  "Hour = 60 * 60 * 1000000000"

text \<open>
  \<open>time.Duration.Hours\<close>:
  \<^verbatim>\<open>hour := d / Hour; nsec := d % Hour; return float64(hour) + float64(nsec)/(60*60*1e9)\<close>
\<close>

definition Hours :: "int \<Rightarrow> rat" where
  "Hours d =
     (let hour = goQuot d Hour; nsec = goRem d Hour
      in float64 (float64 (of_int hour) + float64 (float64 (of_int nsec) / 3600000000000)))"

text \<open>The conversion \<open>int(f)\<close> of a \<open>float64\<close> in the range of \<open>int\<close>: the fraction is dropped.\<close>

definition intOfFloat :: "rat \<Rightarrow> int" where
  "intOfFloat f = (if 0 \<le> f then \<lfloor>f\<rfloor> else \<lceil>f\<rceil>)"

text \<open>
  The day count \<open>int(cr.Spec.Duration.Duration.Hours()/24)\<close> that \<open>Sign\<close> computes from
  a duration of \<open>d\<close> nanoseconds.
\<close>

definition durationDays :: "int \<Rightarrow> int" where
  "durationDays d = intOfFloat (float64 (Hours d / 24))"

section \<open>Provisioner (pkgs/provisioners/origin.go)\<close>

definition DefaultDurationInternval :: int where
  "DefaultDurationInternval = 7"

definition allowedValidty :: "int list" where
  "allowedValidty = [7, 30, 90, 365, 730, 1095, 5475]"

text \<open>
  \<open>math.MaxFloat64\<close> is \<open>(2^53 - 1) * 2^971\<close>. In \<open>closest\<close> every value of \<open>diff\<close> is
  \<open>math.Abs(float64(v - of))\<close>: the subtraction is on Go's \<open>int\<close>, taken as 64 bits wide,
  so it wraps around, and the conversion to \<open>float64\<close> rounds.
\<close>

definition MaxFloat64 :: rat where
  "MaxFloat64 = (2 ^ 53 - 1) * 2 ^ 971"

definition wrap64 :: "int \<Rightarrow> int" where
  "wrap64 x = (x + 2 ^ 63) mod 2 ^ 64 - 2 ^ 63"

definition absDiff :: "int \<Rightarrow> int \<Rightarrow> rat" where
  "absDiff ofd v = \<bar>float64 (of_int (wrap64 (v - ofd)))\<bar>"

text \<open>The loop of \<open>closest\<close>, with its two variables \<open>min\<close> and \<open>closest\<close>.\<close>

fun closest_loop :: "int \<Rightarrow> int list \<Rightarrow> rat \<Rightarrow> int \<Rightarrow> int" where
  "closest_loop ofd [] mn cl = cl"
| "closest_loop ofd (v # valid) mn cl =
     (let diff = absDiff ofd v
      in if diff < mn then closest_loop ofd valid diff v
         else closest_loop ofd valid mn cl)"

definition closest :: "int \<Rightarrow> int list \<Rightarrow> int" where
  "closest ofd valid = closest_loop ofd valid MaxFloat64 ofd"

text \<open>
  Modelled from the spec: the constants \<open>RequestTypeOriginECC\<close> and
  \<open>RequestTypeOriginRSA\<close> of package \<open>pkgs/apis/v1\<close> (the two variants of the issuer's
  request-type enum, a Go string type).
\<close>

definition RequestTypeOriginECC :: string where
  "RequestTypeOriginECC = ''OriginECC''"

definition RequestTypeOriginRSA :: string where
  "RequestTypeOriginRSA = ''OriginRSA''"

text \<open>
  What \<open>Sign\<close> takes from a library: \<open>pki.DecodeX509CertificateRequestBytes\<close>.
\<close>

record Library =
  DecodeX509CertificateRequestBytes :: "bytes \<Rightarrow> error + X509CertificateRequest"

type_synonym Signer = "SignRequest \<Rightarrow> error + SignResponse"

record Provisioner =
  client :: Signer
  reqType :: string

definition New :: "Signer \<Rightarrow> string \<Rightarrow> error + Provisioner" where
  "New c rt = Inr \<lparr>client = c, reqType = rt\<rparr>"

text \<open>
  Calls the program makes on its collaborators, in order. \<open>SignerSign\<close> records the
  request handed to the remote signer and what it answered.
\<close>

datatype event =
    GetOriginIssuer NamespacedName
  | GetClusterOriginIssuer NamespacedName
  | GetSecret NamespacedName
  | APIWith bytes
  | SignerSign SignRequest "error + SignResponse"
  | StatusUpdate CertificateRequest

definition Sign :: "Library \<Rightarrow> Provisioner \<Rightarrow> CertificateRequest \<Rightarrow> (error + bytes) \<times> event list" where
  "Sign lib p cr =
     (case DecodeX509CertificateRequestBytes lib (Request (crSpec cr)) of
        Inl err \<Rightarrow> (Inl (Opaque (''failed to decode CSR for signing: '' @ Error err)), [])
      | Inr csr \<Rightarrow>
          (let hostnames = DNSNames csr;
               duration = (case Duration (crSpec cr) of
                             None \<Rightarrow> DefaultDurationInternval
                           | Some d \<Rightarrow> closest (durationDays d) allowedValidty);
               rt = (if reqType p = RequestTypeOriginECC then ''origin-ecc''
                     else if reqType p = RequestTypeOriginRSA then ''origin-rsa''
                     else '''');
               req = \<lparr>srHostnames = hostnames, srValidity = duration, srType = rt,
                      srCSR = Request (crSpec cr)\<rparr>;
               resp = client p req
           in (case resp of
                 Inl err \<Rightarrow> Inl (Wrapped ''unable to sign request: '' err)
               | Inr r \<Rightarrow> Inr (respCertificate r),
               [SignerSign req resp])))"

section \<open>Issuer conditions (pkgs/controllers, conditions of an OriginIssuerStatus)\<close>

text \<open>
  Modelled from the spec: the constants \<open>ConditionReady\<close> and \<open>ConditionTrue\<close> of
  package \<open>pkgs/apis/v1\<close> and its \<open>GroupVersion.Group\<close> (the group the controller's
  test uses).
\<close>

definition ConditionReady :: string where
  "ConditionReady = ''Ready''"

definition ConditionTrue :: string where
  "ConditionTrue = ''True''"

definition GroupVersion_Group :: string where
  "GroupVersion_Group = ''cert-manager.k8s.cloudflare.com''"

definition IssuerStatusHasCondition :: "OriginIssuerStatus \<Rightarrow> OriginIssuerCondition \<Rightarrow> bool" where
  "IssuerStatusHasCondition status c =
     list_ex (\<lambda>cond. Type c = Type cond \<and> Status c = Status cond) (issConditions status)"

text \<open>
  The loop of \<open>SetIssuerStatusCondition\<close> over \<open>ois.Conditions\<close>: conditions of another
  type are skipped; the first one of the type of \<open>c\<close> is overwritten by \<open>c\<close>, which takes
  over the old transition time when the status is the same, and the loop returns
  (\<open>Some\<close> the updated list). \<open>None\<close>: the loop ran to its end.
\<close>

fun SetIssuerStatusCondition_loop ::
  "OriginIssuerCondition list \<Rightarrow> OriginIssuerCondition \<Rightarrow> OriginIssuerCondition list option" where
  "SetIssuerStatusCondition_loop [] c = None"
| "SetIssuerStatusCondition_loop (condition # rest) c =
     (if Type condition \<noteq> Type c
      then map_option ((#) condition) (SetIssuerStatusCondition_loop rest c)
      else Some ((if Status condition = Status c
                  then c\<lparr>LastTransitionTime := LastTransitionTime condition\<rparr>
                  else c) # rest))"

text \<open>The clock's \<open>Now()\<close> is the argument \<open>now\<close>.\<close>

definition SetIssuerStatusCondition ::
  "OriginIssuerStatus \<Rightarrow> string \<Rightarrow> string \<Rightarrow> time \<Rightarrow> string \<Rightarrow> string \<Rightarrow> OriginIssuerStatus" where
  "SetIssuerStatusCondition ois conditionType status now reason message =
     (let c = \<lparr>Type = conditionType, Status = status, LastTransitionTime = Some now,
               Reason = reason, Message = message\<rparr>
      in case SetIssuerStatusCondition_loop (issConditions ois) c of
           Some conds \<Rightarrow> ois\<lparr>issConditions := conds\<rparr>
         | None \<Rightarrow> ois\<lparr>issConditions := issConditions ois @ [c]\<rparr>)"

section \<open>cert-manager's helpers on a CertificateRequest (package cmutil)\<close>

text \<open>
  The controller calls four functions of cert-manager's \<open>pkg/api/util\<close> and uses its
  condition constants. They are library code; the definitions follow the library.
\<close>

definition CertificateRequestConditionReady :: string where
  "CertificateRequestConditionReady = ''Ready''"

definition CertificateRequestConditionApproved :: string where
  "CertificateRequestConditionApproved = ''Approved''"

definition CertificateRequestConditionDenied :: string where
  "CertificateRequestConditionDenied = ''Denied''"

definition cmmeta_ConditionTrue :: string where
  "cmmeta_ConditionTrue = ''True''"

definition cmmeta_ConditionFalse :: string where
  "cmmeta_ConditionFalse = ''False''"

definition CertificateRequestReasonPending :: string where
  "CertificateRequestReasonPending = ''Pending''"

definition CertificateRequestReasonFailed :: string where
  "CertificateRequestReasonFailed = ''Failed''"

definition CertificateRequestReasonIssued :: string where
  "CertificateRequestReasonIssued = ''Issued''"

definition CertificateRequestReasonDenied :: string where
  "CertificateRequestReasonDenied = ''Denied''"

text \<open>
  \<open>CertificateRequestHasCondition\<close>: type and status must match; the reason must match
  only when the condition asked for has one.
\<close>

definition CertificateRequestHasCondition :: "CertificateRequest \<Rightarrow> CertificateRequestCondition \<Rightarrow> bool" where
  "CertificateRequestHasCondition cr c =
     list_ex (\<lambda>cond. Type c = Type cond \<and> Status c = Status cond
                     \<and> (Reason c = [] \<or> Reason c = Reason cond))
       (Conditions (crStatus cr))"

text \<open>
  \<open>CertificateRequestIsApproved\<close> and \<open>CertificateRequestIsDenied\<close>: a condition of
  type Approved (Denied) with status True, whatever its reason.
\<close>

definition CertificateRequestIsApproved :: "CertificateRequest \<Rightarrow> bool" where
  "CertificateRequestIsApproved cr =
     list_ex (\<lambda>con. Type con = CertificateRequestConditionApproved
                    \<and> Status con = cmmeta_ConditionTrue)
       (Conditions (crStatus cr))"

definition CertificateRequestIsDenied :: "CertificateRequest \<Rightarrow> bool" where
  "CertificateRequestIsDenied cr =
     list_ex (\<lambda>con. Type con = CertificateRequestConditionDenied
                    \<and> Status con = cmmeta_ConditionTrue)
       (Conditions (crStatus cr))"

text \<open>
  \<open>SetCertificateRequestCondition\<close> has the shape of \<open>SetIssuerStatusCondition\<close>: the
  first condition of the type is overwritten, keeping its transition time when the
  status is unchanged; otherwise the new condition is appended. \<open>now\<close> is the \<open>Now()\<close>
  of the package's clock \<open>cmutil.Clock\<close>.
\<close>

fun SetCertificateRequestCondition_loop ::
  "CertificateRequestCondition list \<Rightarrow> CertificateRequestCondition
     \<Rightarrow> CertificateRequestCondition list option" where
  "SetCertificateRequestCondition_loop [] c = None"
| "SetCertificateRequestCondition_loop (cond # rest) c =
     (if Type cond \<noteq> Type c
      then map_option ((#) cond) (SetCertificateRequestCondition_loop rest c)
      else Some ((if Status cond = Status c
                  then c\<lparr>LastTransitionTime := LastTransitionTime cond\<rparr>
                  else c) # rest))"

definition SetCertificateRequestCondition ::
  "time \<Rightarrow> CertificateRequest \<Rightarrow> string \<Rightarrow> string \<Rightarrow> string \<Rightarrow> string \<Rightarrow> CertificateRequest" where
  "SetCertificateRequestCondition now cr conditionType status reason message =
     (let newCondition = \<lparr>Type = conditionType, Status = status,
                          LastTransitionTime = Some now, Reason = reason,
                          Message = message\<rparr>;
          conds = Conditions (crStatus cr)
      in cr\<lparr>crStatus := (crStatus cr)\<lparr>Conditions :=
              (case SetCertificateRequestCondition_loop conds newCondition of
                 Some conds' \<Rightarrow> conds'
               | None \<Rightarrow> conds @ [newCondition])\<rparr>\<rparr>)"

section \<open>The CertificateRequest controller (pkgs/controllers/certificaterequest.go)\<close>

definition originDBWriteErrorCode :: int where
  "originDBWriteErrorCode = 1100"

text \<open>
  The controller with its collaborators. \<open>ClientGetOriginIssuer\<close> and
  \<open>ClientGetClusterOriginIssuer\<close> are \<open>r.Client.Get\<close> on the two issuer types,
  \<open>ClientStatusUpdate\<close> is \<open>r.Client.Status().Update\<close> (its error, or none; what
  the server writes back into the object is not modelled),
  \<open>ReaderGetSecret\<close> is \<open>r.Reader.Get\<close> on a secret, \<open>FactoryAPIWith\<close> is
  \<open>r.Factory.APIWith\<close>, \<open>ClockNow\<close> is \<open>r.Clock.Now()\<close> and \<open>cmutilClockNow\<close> is the
  \<open>Now()\<close> of cert-manager's package clock. Within one call of \<open>Reconcile\<close> each of them
  is used at most once, so each is a function of its argument.
\<close>

record CertificateRequestController =
  ClusterResourceNamespace :: string
  CheckApprovedCondition :: bool
  ClientGetOriginIssuer :: "NamespacedName \<Rightarrow> error + OriginIssuer"
  ClientGetClusterOriginIssuer :: "NamespacedName \<Rightarrow> error + ClusterOriginIssuer"
  ClientStatusUpdate :: "CertificateRequest \<Rightarrow> error option"
  ReaderGetSecret :: "NamespacedName \<Rightarrow> error + Secret"
  FactoryAPIWith :: "bytes \<Rightarrow> error + Signer"
  ClockNow :: time
  cmutilClockNow :: time
  Lib :: Library

text \<open>
  What a call of \<open>Reconcile\<close> leaves: the request as mutated in place, the returned
  error (the returned \<open>reconcile.Result\<close> is always empty) and the calls made.
\<close>

record Outcome =
  outRequest :: CertificateRequest
  outError :: "error option"
  outTrace :: "event list"

text \<open>\<open>types.NamespacedName.String()\<close>.\<close>

definition nnString :: "NamespacedName \<Rightarrow> string" where
  "nnString n = nnNamespace n @ ''/'' @ nnName n"

text \<open>
  \<open>%q\<close> of a string (\<open>strconv.Quote\<close>), byte by byte: the quote and the backslash are
  escaped, the control characters are written with their escapes, and every other
  byte is copied, which is what Go does for printable characters in valid UTF-8.
\<close>

definition hexDigit :: "nat \<Rightarrow> char" where
  "hexDigit n = char_of (if n < 10 then 48 + n else 87 + n)"

definition quoteByte :: "char \<Rightarrow> string" where
  "quoteByte c =
     (let n = (of_char c :: nat)
      in if n = 0x22 then [CHR 0x5C, CHR 0x22]
         else if n = 0x5C then [CHR 0x5C, CHR 0x5C]
         else if n = 7 then [CHR 0x5C, CHR ''a'']
         else if n = 8 then [CHR 0x5C, CHR ''b'']
         else if n = 12 then [CHR 0x5C, CHR ''f'']
         else if n = 10 then [CHR 0x5C, CHR ''n'']
         else if n = 13 then [CHR 0x5C, CHR ''r'']
         else if n = 9 then [CHR 0x5C, CHR ''t'']
         else if n = 11 then [CHR 0x5C, CHR ''v'']
         else if n < 0x20 \<or> n = 0x7F
           then [CHR 0x5C, CHR ''x'', hexDigit (n div 16), hexDigit (n mod 16)]
         else [c])"

definition quoted :: "string \<Rightarrow> string" where
  "quoted s = [CHR 0x22] @ concat (map quoteByte s) @ [CHR 0x22]"

text \<open>\<open>setStatus\<close>: the updated request, the error of the status update, the call made.\<close>

definition setStatus ::
  "CertificateRequestController \<Rightarrow> CertificateRequest \<Rightarrow> string \<Rightarrow> string \<Rightarrow> string
     \<Rightarrow> CertificateRequest \<times> error option \<times> event list" where
  "setStatus r cr status reason message =
     (let cr' = SetCertificateRequestCondition (cmutilClockNow r) cr
                  CertificateRequestConditionReady status reason message
      in (cr', ClientStatusUpdate r cr', [StatusUpdate cr']))"

text \<open>
  A return that first sets the status and drops the error of the update
  (\<open>_ = r.setStatus(...); return reconcile.Result{}, err\<close>), after the calls \<open>tr\<close>.
\<close>

definition failWith ::
  "CertificateRequestController \<Rightarrow> CertificateRequest \<Rightarrow> event list \<Rightarrow> string \<Rightarrow> string
     \<Rightarrow> string \<Rightarrow> error \<Rightarrow> Outcome" where
  "failWith r cr tr status reason message err =
     (case setStatus r cr status reason message of
        (cr', _, tr') \<Rightarrow> \<lparr>outRequest = cr', outError = Some err, outTrace = tr @ tr'\<rparr>)"

text \<open>
  \<open>Reconcile\<close> is one function in the source; it is cut here into the part before
  the \<open>switch\<close> on the issuer kind (\<open>Reconcile\<close>), the \<open>switch\<close> (\<open>Reconcile_issuer\<close>), the
  lookup of the secret and its key (\<open>Reconcile_secret\<close>) and the rest, from
  \<open>r.Factory.APIWith\<close> on (\<open>Reconcile_sign\<close>). Each part gets the calls made so far.
\<close>

definition Reconcile_sign ::
  "CertificateRequestController \<Rightarrow> CertificateRequest \<Rightarrow> OriginIssuerSpec \<Rightarrow> bytes
     \<Rightarrow> event list \<Rightarrow> Outcome" where
  "Reconcile_sign r cr issuerspec serviceKey tr0 =
     (let tr = tr0 @ [APIWith serviceKey]
      in case FactoryAPIWith r serviceKey of
           Inl err \<Rightarrow> \<lparr>outRequest = cr, outError = Some err, outTrace = tr\<rparr>
         | Inr c \<Rightarrow>
             (case New c (RequestType issuerspec) of
                Inl err \<Rightarrow>
                  failWith r cr tr cmmeta_ConditionFalse ''Error''
                    ''Failed initialize provisioner'' err
              | Inr p \<Rightarrow>
                  (case Sign (Lib r) p cr of
                     (Inl err, str) \<Rightarrow>
                       if (case errorsAsAPIError err of
                             Some apiError \<Rightarrow> Code apiError = originDBWriteErrorCode
                           | None \<Rightarrow> False)
                       then \<lparr>outRequest = cr, outError = Some err, outTrace = tr @ str\<rparr>
                       else failWith r cr (tr @ str) cmmeta_ConditionFalse
                              CertificateRequestReasonFailed
                              (''Failed to sign certificate request: '' @ Error err) err
                   | (Inr pem, str) \<Rightarrow>
                       (case setStatus r
                               (cr\<lparr>crStatus := (crStatus cr)\<lparr>Certificate := pem\<rparr>\<rparr>)
                               cmmeta_ConditionTrue CertificateRequestReasonIssued
                               ''Certificate issued'' of
                          (cr', _, tr') \<Rightarrow>
                            \<lparr>outRequest = cr', outError = None,
                             outTrace = tr @ str @ tr'\<rparr>))))"

definition Reconcile_secret ::
  "CertificateRequestController \<Rightarrow> CertificateRequest \<Rightarrow> NamespacedName \<Rightarrow> OriginIssuerSpec
     \<Rightarrow> event list \<Rightarrow> Outcome" where
  "Reconcile_secret r cr secretNamespaceName issuerspec tr0 =
     (let tr = tr0 @ [GetSecret secretNamespaceName]
      in case ReaderGetSecret r secretNamespaceName of
           Inl err \<Rightarrow>
             if IsNotFound err
             then failWith r cr tr cmmeta_ConditionFalse ''NotFound''
                    (''Failed to retrieve auth secret: '' @ Error err) err
             else failWith r cr tr cmmeta_ConditionFalse ''Error''
                    (''Failed to retrieve auth secret: '' @ Error err) err
         | Inr secret \<Rightarrow>
             (case Data secret (skKey (ServiceKeyRef (Auth issuerspec))) of
                None \<Rightarrow>
                  (let err = Opaque (''secret '' @ secretName secret
                                     @ '' does not contain key ''
                                     @ quoted (skKey (ServiceKeyRef (Auth issuerspec))))
                   in failWith r cr tr cmmeta_ConditionFalse ''NotFound''
                        (''Failed to retrieve auth secret: '' @ Error err) err)
              | Some serviceKey \<Rightarrow> Reconcile_sign r cr issuerspec serviceKey tr))"

definition readyTrue :: OriginIssuerCondition where
  "readyTrue = \<lparr>Type = ConditionReady, Status = ConditionTrue, LastTransitionTime = None,
                Reason = '''', Message = ''''\<rparr>"

definition Reconcile_issuer :: "CertificateRequestController \<Rightarrow> CertificateRequest \<Rightarrow> Outcome" where
  "Reconcile_issuer r cr =
     (if refKind (IssuerRef (crSpec cr)) = ''OriginIssuer'' then
        (let issNamespaceName = \<lparr>nnNamespace = crNamespace cr,
                                 nnName = refName (IssuerRef (crSpec cr))\<rparr>;
             tr = [GetOriginIssuer issNamespaceName]
         in case ClientGetOriginIssuer r issNamespaceName of
              Inl err \<Rightarrow>
                failWith r cr tr cmmeta_ConditionFalse CertificateRequestReasonPending
                  (''Failed to retrieve OriginIssuer resource '' @ nnString issNamespaceName
                     @ '': '' @ Error err) err
            | Inr iss \<Rightarrow>
                if \<not> IssuerStatusHasCondition (issStatus iss) readyTrue
                then failWith r cr tr cmmeta_ConditionFalse CertificateRequestReasonPending
                       (''OriginIssuer '' @ nnString issNamespaceName @ '' is not Ready'')
                       (Opaque (''resource '' @ nnString issNamespaceName @ '' is not ready''))
                else Reconcile_secret r cr
                       \<lparr>nnNamespace = issNamespace iss,
                        nnName = skName (ServiceKeyRef (Auth (issSpec iss)))\<rparr>
                       (issSpec iss) tr)
      else if refKind (IssuerRef (crSpec cr)) = ''ClusterOriginIssuer'' then
        (let issNamespaceName = \<lparr>nnNamespace = '''',
                                 nnName = refName (IssuerRef (crSpec cr))\<rparr>;
             tr = [GetClusterOriginIssuer issNamespaceName]
         in case ClientGetClusterOriginIssuer r issNamespaceName of
              Inl err \<Rightarrow>
                failWith r cr tr cmmeta_ConditionFalse CertificateRequestReasonPending
                  (''Failed to retrieve OriginIssuer resource '' @ nnString issNamespaceName
                     @ '': '' @ Error err) err
            | Inr iss \<Rightarrow>
                if \<not> IssuerStatusHasCondition (cissStatus iss) readyTrue
                then failWith r cr tr cmmeta_ConditionFalse CertificateRequestReasonPending
                       (''OriginIssuer '' @ nnString issNamespaceName @ '' is not Ready'')
                       (Opaque (''resource '' @ nnString issNamespaceName @ '' is not ready''))
                else Reconcile_secret r cr
                       \<lparr>nnNamespace = ClusterResourceNamespace r,
                        nnName = skName (ServiceKeyRef (Auth (cissSpec iss)))\<rparr>
                       (cissSpec iss) tr)
      else
        failWith r cr [] cmmeta_ConditionFalse CertificateRequestReasonFailed
          (''Unknown issuer kind: '' @ refKind (IssuerRef (crSpec cr)))
          (Opaque (''unknown issuer kind: '' @ refKind (IssuerRef (crSpec cr)))))"

text \<open>The condition literals of the three "already done" checks.\<close>

definition readyCondition :: "string \<Rightarrow> string \<Rightarrow> CertificateRequestCondition" where
  "readyCondition status reason =
     \<lparr>Type = CertificateRequestConditionReady, Status = status, LastTransitionTime = None,
      Reason = reason, Message = ''''\<rparr>"

definition Reconcile :: "CertificateRequestController \<Rightarrow> CertificateRequest \<Rightarrow> Outcome" where
  "Reconcile r cr =
     (let ignore = \<lparr>outRequest = cr, outError = None, outTrace = []\<rparr>
      in if refGroup (IssuerRef (crSpec cr)) \<noteq> ''''
            \<and> refGroup (IssuerRef (crSpec cr)) \<noteq> GroupVersion_Group then ignore
         else if CertificateRequestHasCondition cr (readyCondition cmmeta_ConditionTrue '''')
         then ignore
         else if CertificateRequestHasCondition cr
                   (readyCondition cmmeta_ConditionFalse CertificateRequestReasonFailed)
         then ignore
         else if CertificateRequestHasCondition cr
                   (readyCondition cmmeta_ConditionFalse CertificateRequestReasonDenied)
         then ignore
         else if CertificateRequestIsDenied cr then
           (let cr1 = (if FailureTime (crStatus cr) = None
                       then cr\<lparr>crStatus := (crStatus cr)\<lparr>FailureTime := Some (ClockNow r)\<rparr>\<rparr>
                       else cr)
            in case setStatus r cr1 cmmeta_ConditionFalse CertificateRequestReasonDenied
                      ''The CertificateRequest was denied by an approval controller'' of
                 (cr', err, tr) \<Rightarrow> \<lparr>outRequest = cr', outError = err, outTrace = tr\<rparr>)
         else if CheckApprovedCondition r \<and> \<not> CertificateRequestIsApproved cr then ignore
         else if length (Certificate (crStatus cr)) > 0 then ignore
         else if IsCA (crSpec cr) then ignore
         else Reconcile_issuer r cr)"

section \<open>Specification-level notions\<close>

text \<open>
  The validity rule in the specification's words: the element of the list that
  minimises the absolute difference to \<open>d\<close>, the first such element in list order.
\<close>

definition nearestInOrder :: "int \<Rightarrow> int list \<Rightarrow> int option" where
  "nearestInOrder d valid = find (\<lambda>v. \<forall>w\<in>set valid. \<bar>v - d\<bar> \<le> \<bar>w - d\<bar>) valid"

text \<open>
  The request that \<open>Sign\<close> builds for the signer from the decoded CSR, named for use
  in the statements below.
\<close>

definition signRequest ::
  "string \<Rightarrow> CertificateRequest \<Rightarrow> X509CertificateRequest \<Rightarrow> SignRequest" where
  "signRequest rt cr csr =
     \<lparr>srHostnames = DNSNames csr,
      srValidity = (case Duration (crSpec cr) of
                      None \<Rightarrow> DefaultDurationInternval
                    | Some d \<Rightarrow> closest (durationDays d) allowedValidty),
      srType = (if rt = RequestTypeOriginECC then ''origin-ecc''
                else if rt = RequestTypeOriginRSA then ''origin-rsa''
                else ''''),
      srCSR = Request (crSpec cr)\<rparr>"

text \<open>The secrets looked up during a call, in order.\<close>

fun secretLookups :: "event list \<Rightarrow> NamespacedName list" where
  "secretLookups [] = []"
| "secretLookups (GetSecret n # tr) = n # secretLookups tr"
| "secretLookups (e # tr) = secretLookups tr"

text \<open>The requests handed to the remote signer during a call, in order.\<close>

fun signerCalls :: "event list \<Rightarrow> SignRequest list" where
  "signerCalls [] = []"
| "signerCalls (SignerSign req resp # tr) = req # signerCalls tr"
| "signerCalls (e # tr) = signerCalls tr"

text \<open>
  A request is settled when it carries Ready=True, Ready=False/Failed or
  Ready=False/Denied.
\<close>

definition settled :: "CertificateRequest \<Rightarrow> bool" where
  "settled cr =
     list_ex (\<lambda>c. Type c = ''Ready''
                  \<and> (Status c = ''True''
                     \<or> Status c = ''False'' \<and> (Reason c = ''Failed'' \<or> Reason c = ''Denied'')))
       (Conditions (crStatus cr))"

text \<open>A request carries a Ready condition with status False.\<close>

definition readyFalse :: "CertificateRequest \<Rightarrow> bool" where
  "readyFalse cr =
     list_ex (\<lambda>c. Type c = ''Ready'' \<and> Status c = ''False'') (Conditions (crStatus cr))"

section \<open>The objects of the controller's test\<close>

text \<open>
  The request, issuer and secret of \<open>TestCertificateRequestReconcile\<close>, and a decoder
  that accepts one CSR. \<open>day\<close> is 24 hours in nanoseconds.
\<close>

definition day :: int where
  "day = 24 * 3600 * 1000000000"

definition exampleLibrary :: Library where
  "exampleLibrary =
     \<lparr>DecodeX509CertificateRequestBytes =
        (\<lambda>b. if b = ''CSR'' then Inr \<lparr>DNSNames = [''example.com'']\<rparr>
             else Inl (Opaque ''malformed''))\<rparr>"

definition exampleRequest :: CertificateRequest where
  "exampleRequest =
     \<lparr>crNamespace = ''default'', crName = ''foobar'',
      crSpec = \<lparr>Request = ''CSR'', Duration = Some (7 * day),
                IssuerRef = \<lparr>refName = ''foobar'', refKind = ''OriginIssuer'',
                             refGroup = ''cert-manager.k8s.cloudflare.com''\<rparr>,
                IsCA = False\<rparr>,
      crStatus = \<lparr>Conditions = [], Certificate = '''', FailureTime = None\<rparr>\<rparr>"

definition withDuration :: "int option \<Rightarrow> CertificateRequest \<Rightarrow> CertificateRequest" where
  "withDuration d cr = cr\<lparr>crSpec := (crSpec cr)\<lparr>Duration := d\<rparr>\<rparr>"

definition withKind :: "string \<Rightarrow> CertificateRequest \<Rightarrow> CertificateRequest" where
  "withKind k cr = cr\<lparr>crSpec := (crSpec cr)\<lparr>IssuerRef := (IssuerRef (crSpec cr))\<lparr>refKind := k\<rparr>\<rparr>\<rparr>"

definition withConditions :: "Condition list \<Rightarrow> CertificateRequest \<Rightarrow> CertificateRequest" where
  "withConditions cs cr = cr\<lparr>crStatus := (crStatus cr)\<lparr>Conditions := cs\<rparr>\<rparr>"

definition withCertificate :: "bytes \<Rightarrow> CertificateRequest \<Rightarrow> CertificateRequest" where
  "withCertificate pem cr = cr\<lparr>crStatus := (crStatus cr)\<lparr>Certificate := pem\<rparr>\<rparr>"

definition exampleIssuerSpec :: OriginIssuerSpec where
  "exampleIssuerSpec =
     \<lparr>Auth = \<lparr>ServiceKeyRef = \<lparr>skName = ''service-key-issuer'', skKey = ''key''\<rparr>\<rparr>,
      RequestType = ''''\<rparr>"

definition exampleIssuer :: OriginIssuer where
  "exampleIssuer =
     \<lparr>issNamespace = ''default'', issName = ''foobar'', issSpec = exampleIssuerSpec,
      issStatus = \<lparr>issConditions =
        [\<lparr>Type = ''Ready'', Status = ''True'', LastTransitionTime = None, Reason = '''',
          Message = ''''\<rparr>]\<rparr>\<rparr>"

definition exampleClusterIssuer :: ClusterOriginIssuer where
  "exampleClusterIssuer =
     \<lparr>cissName = ''foobar'', cissSpec = exampleIssuerSpec,
      cissStatus = issStatus exampleIssuer\<rparr>"

definition exampleSecret :: Secret where
  "exampleSecret =
     \<lparr>secretName = ''service-key-issuer'',
      Data = [''key'' \<mapsto> ''djEuMC0weDAwQkFCMTBD'']\<rparr>"

definition bogusSigner :: Signer where
  "bogusSigner = (\<lambda>req. Inr \<lparr>respId = ''1'', respCertificate = ''bogus''\<rparr>)"

definition bogusFactory :: "bytes \<Rightarrow> error + Signer" where
  "bogusFactory = (\<lambda>serviceKey. Inr bogusSigner)"

definition brokenFactory :: "bytes \<Rightarrow> error + Signer" where
  "brokenFactory = (\<lambda>serviceKey. Inl (Opaque ''no client for this key''))"

definition dbWriteError :: error where
  "dbWriteError =
     APIErr \<lparr>Code = 1100, apiMessage = ''Failed to write certificate to Database'',
             RayID = ''7d3eb086eedab98e''\<rparr>"

definition failingSigner :: Signer where
  "failingSigner = (\<lambda>req. Inl dbWriteError)"

text \<open>
  A store that holds the issuer (under both kinds) and the secret, in namespace
  \<open>default\<close> and, for the cluster issuer's secret, in \<open>origin-ca\<close>; the factory answers
  \<open>factory\<close> and the status update answers \<open>update\<close>.
\<close>

definition exampleController ::
  "(bytes \<Rightarrow> error + Signer) \<Rightarrow> error option \<Rightarrow> CertificateRequestController" where
  "exampleController factory update =
     \<lparr>ClusterResourceNamespace = ''origin-ca'',
      CheckApprovedCondition = False,
      ClientGetOriginIssuer =
        (\<lambda>n. if n = \<lparr>nnNamespace = ''default'', nnName = ''foobar''\<rparr> then Inr exampleIssuer
             else Inl (NotFoundErr ''not found'')),
      ClientGetClusterOriginIssuer =
        (\<lambda>n. if n = \<lparr>nnNamespace = '''', nnName = ''foobar''\<rparr> then Inr exampleClusterIssuer
             else Inl (NotFoundErr ''not found'')),
      ClientStatusUpdate = (\<lambda>cr. update),
      ReaderGetSecret =
        (\<lambda>n. if nnName n = ''service-key-issuer''
                \<and> (nnNamespace n = ''default'' \<or> nnNamespace n = ''origin-ca'')
             then Inr exampleSecret else Inl (NotFoundErr ''not found'')),
      FactoryAPIWith = factory,
      ClockNow = 1000,
      cmutilClockNow = 1000,
      Lib = exampleLibrary\<rparr>"

definition deniedCondition :: Condition where
  "deniedCondition =
     \<lparr>Type = ''Denied'', Status = ''True'', LastTransitionTime = Some 900,
      Reason = ''policy.cert-manager.io'', Message = ''denied by policy''\<rparr>"

section \<open>Rounding to \<open>float64\<close>\<close>

lemma pow_frac:
  fixes m n :: nat
  shows "(2::rat) powi (int m - int n) = 2 ^ m / 2 ^ n"
  by (simp add: power_int_diff)

lemma ilog2_bounds:
  assumes "0 < x"
  shows "2 powi ilog2 x \<le> x \<and> x < 2 powi (ilog2 x + 1)"
proof -
  obtain a b where q: "quotient_of x = (a, b)" by force
  have b: "0 < b" using quotient_of_denom_pos [OF q] .
  have x: "x = of_int a / of_int b" using quotient_of_div [OF q] .
  have a: "0 < a" using assms b x by (simp add: zero_less_divide_iff)
  define la lb where "la = nat (bitlen a - 1)" and "lb = nat (bitlen b - 1)"
  have "bitlen a \<noteq> 0" "bitlen b \<noteq> 0"
    using a b by (simp_all add: bitlen_eq_zero_iff)
  then have "1 \<le> bitlen a" "1 \<le> bitlen b"
    using bitlen_nonneg [of a] bitlen_nonneg [of b] by linarith+
  then have ba: "bitlen a = int la + 1" and bb: "bitlen b = int lb + 1"
    by (simp_all add: la_def lb_def)
  have A: "2 ^ la \<le> a" "a < 2 ^ Suc la"
    using bitlen_bounds [OF a] unfolding ba by (simp_all add: nat_add_distrib)
  have B: "2 ^ lb \<le> b" "b < 2 ^ Suc lb"
    using bitlen_bounds [OF b] unfolding bb by (simp_all add: nat_add_distrib)
  have Ar: "(2::rat) ^ la \<le> of_int a" "(of_int a :: rat) < 2 ^ Suc la"
    using A by (metis of_int_le_iff of_int_numeral of_int_power, metis of_int_less_iff of_int_numeral of_int_power)
  have Br: "(2::rat) ^ lb \<le> of_int b" "(of_int b :: rat) < 2 ^ Suc lb"
    using B by (metis of_int_le_iff of_int_numeral of_int_power, metis of_int_less_iff of_int_numeral of_int_power)
  have bpos: "(0::rat) < of_int b" using b by simp
  have k: "bitlen a - bitlen b = int la - int lb" by (simp add: ba bb)
  have lower: "(2::rat) powi (int la - int lb - 1) \<le> x"
  proof -
    have "(2::rat) powi (int la - int lb - 1) = 2 ^ la / 2 ^ Suc lb"
      using pow_frac [of la "Suc lb"] by (simp add: algebra_simps)
    also have "\<dots> \<le> of_int a / of_int b"
      using Ar(1) Br(2) bpos a by (intro frac_le) auto
    finally show ?thesis by (simp add: x)
  qed
  have upper: "x < (2::rat) powi (int la - int lb + 1)"
  proof -
    have "of_int a / of_int b < (2::rat) ^ Suc la / 2 ^ lb"
      using Ar(2) Br(1) bpos a by (intro frac_less) auto
    also have "\<dots> = 2 powi (int la - int lb + 1)"
      using pow_frac [of "Suc la" lb] by (simp add: algebra_simps)
    finally show ?thesis by (simp add: x)
  qed
  show ?thesis
    using lower upper by (auto simp: ilog2_def q k Let_def)
qed


lemma roundHalfEven_of_int [simp]: "roundHalfEven (of_int m) = m"
  by (simp add: roundHalfEven_def)



lemma float64_of_int:
  assumes "\<bar>n\<bar> < 2 ^ 53"
  shows "float64 (of_int n) = of_int n"
proof (cases "n = 0")
  case True
  then show ?thesis by (simp add: float64_def)
next
  case False
  define x :: rat where "x = \<bar>of_int n\<bar>"
  define e where "e = ilog2 x"
  have x1: "1 \<le> x"
  proof -
    from False have "1 \<le> \<bar>n\<bar>" by simp
    then have "(1::rat) \<le> of_int \<bar>n\<bar>" by (metis of_int_le_iff of_int_1)
    then show ?thesis by (simp add: x_def)
  qed
  have x53: "x < 2 ^ 53"
  proof -
    from assms have "(of_int \<bar>n\<bar> :: rat) < of_int (2 ^ 53)" by (simp only: of_int_less_iff)
    then show ?thesis by (simp add: x_def)
  qed
  from x1 have "0 < x" by simp
  from ilog2_bounds [OF this] have b: "2 powi e \<le> x" "x < 2 powi (e + 1)"
    by (simp_all add: e_def)
  have e0: "0 \<le> e"
  proof (rule ccontr)
    assume "\<not> 0 \<le> e"
    then have "e + 1 \<le> 0" by simp
    then have "(2::rat) powi (e + 1) \<le> 2 powi 0" by (intro power_int_increasing) auto
    with b(2) x1 show False by simp
  qed
  have e52: "e \<le> 52"
  proof (rule ccontr)
    assume "\<not> e \<le> 52"
    then have "53 \<le> e" by simp
    then have "(2::rat) powi 53 \<le> 2 powi e" by (intro power_int_increasing) auto
    with b(1) x53 show False by simp
  qed
  define j where "j = nat (52 - e)"
  have q: "(2::rat) powi (e - 52) = 1 / 2 ^ j"
  proof -
    have "e - 52 = - int j" using e52 by (simp add: j_def)
    then show ?thesis by (simp add: power_int_minus_divide)
  qed
  have "(of_int n :: rat) / (1 / 2 ^ j) = of_int (n * 2 ^ j)" by simp
  then have "roundHalfEven (of_int n / (1 / 2 ^ j)) = n * 2 ^ j"
    by (simp only: roundHalfEven_of_int)
  moreover have "max e (- 1022) = e" using e0 by simp
  ultimately show ?thesis
    using False by (simp add: float64_def Let_def x_def [symmetric] e_def [symmetric] q)
qed

lemma intOfFloat_of_int [simp]: "intOfFloat (of_int n) = n"
  by (simp add: intOfFloat_def)


text \<open>A duration of a whole number of days counts as that many days.\<close>

lemma durationDays_whole:
  assumes "\<bar>n\<bar> \<le> 106751"
  shows "durationDays (n * day) = n"
proof -
  have q: "goQuot (n * day) Hour = 24 * n"
  proof -
    have "\<bar>n * day\<bar> = (24 * \<bar>n\<bar>) * Hour" by (simp add: day_def Hour_def abs_mult)
    then have "\<bar>n * day\<bar> div \<bar>Hour\<bar> = 24 * \<bar>n\<bar>" by (simp add: Hour_def)
    moreover have "sgn (n * day) = sgn n" "sgn Hour = 1"
      by (simp_all add: day_def Hour_def sgn_mult)
    ultimately show ?thesis by (simp add: goQuot_def mult_sgn_abs mult.assoc [symmetric])
  qed
  have r: "goRem (n * day) Hour = 0" by (simp add: goRem_def q) (simp add: day_def Hour_def)
  have h: "float64 (of_int (24 * n)) = of_int (24 * n)"
    using assms by (intro float64_of_int) simp
  have z: "float64 0 = 0" by (simp add: float64_def)
  have "Hours (n * day) = of_int (24 * n)"
    unfolding Hours_def Let_def q r
    by (simp only: of_int_0 z div_0 add_0_right h)
  then have "Hours (n * day) / 24 = of_int n" by simp
  moreover have "float64 (of_int n) = of_int n"
    using assms by (intro float64_of_int) simp
  ultimately show ?thesis by (simp add: durationDays_def)
qed



section \<open>The validity rule\<close>

lemma exists_min:
  fixes f :: "'a \<Rightarrow> rat"
  assumes "vs \<noteq> []"
  shows "\<exists>u\<in>set vs. \<forall>w\<in>set vs. f u \<le> f w"
proof -
  from assms have "Min (f ` set vs) \<in> f ` set vs" by (intro Min_in) auto
  then obtain u where u: "u \<in> set vs" "f u = Min (f ` set vs)" by auto
  have "\<forall>w\<in>set vs. f u \<le> f w" unfolding u(2) by simp
  with u(1) show ?thesis by blast
qed

lemma find_cong_set: "(\<And>x. x \<in> set xs \<Longrightarrow> P x = Q x) \<Longrightarrow> find P xs = find Q xs"
  by (induction xs) auto

text \<open>
  The loop returns the first element that is below the running minimum and nearest
  among the elements still to come, or the running choice when there is none.
\<close>

lemma closest_loop_find:
  "closest_loop d vs mn cl =
     (case find (\<lambda>v. absDiff d v < mn \<and> (\<forall>w\<in>set vs. absDiff d v \<le> absDiff d w)) vs of
        Some v \<Rightarrow> v | None \<Rightarrow> cl)"
proof (induction vs arbitrary: mn cl)
  case Nil
  then show ?case by simp
next
  case (Cons v vs)
  show ?case
  proof (cases "absDiff d v < mn")
    case below: True
    show ?thesis
    proof (cases "\<forall>w\<in>set vs. absDiff d v \<le> absDiff d w")
      case True
      have "find (\<lambda>u. absDiff d u < absDiff d v
                      \<and> (\<forall>w\<in>set vs. absDiff d u \<le> absDiff d w)) vs = None"
        using True by (auto simp: find_None_iff)
      with True below show ?thesis
        by (simp add: Cons.IH Let_def)
    next
      case False
      then obtain w0 where w0: "w0 \<in> set vs" "absDiff d w0 < absDiff d v" by force
      have eq: "find (\<lambda>u. absDiff d u < mn
                          \<and> (\<forall>w\<in>set (v # vs). absDiff d u \<le> absDiff d w)) vs
              = find (\<lambda>u. absDiff d u < absDiff d v
                          \<and> (\<forall>w\<in>set vs. absDiff d u \<le> absDiff d w)) vs"
        using w0 below by (intro find_cong_set) force
      from w0 have "vs \<noteq> []" by auto
      then obtain u where u: "u \<in> set vs" "\<forall>w\<in>set vs. absDiff d u \<le> absDiff d w"
        using exists_min [of vs "absDiff d"] by blast
      then have "absDiff d u < absDiff d v" using w0 by force
      with u have "find (\<lambda>u. absDiff d u < absDiff d v
                            \<and> (\<forall>w\<in>set vs. absDiff d u \<le> absDiff d w)) vs \<noteq> None"
        by (auto simp: find_None_iff)
      with eq False below show ?thesis
        by (auto simp add: Cons.IH Let_def split: option.splits)
    qed
  next
    case False
    have eq: "find (\<lambda>u. absDiff d u < mn
                        \<and> (\<forall>w\<in>set (v # vs). absDiff d u \<le> absDiff d w)) vs
            = find (\<lambda>u. absDiff d u < mn \<and> (\<forall>w\<in>set vs. absDiff d u \<le> absDiff d w)) vs"
      using False by (intro find_cong_set) force
    with False show ?thesis
      by (simp add: Cons.IH Let_def)
  qed
qed

text \<open>
  Where no subtraction wraps and every difference is a 53-bit integer, the
  differences the loop compares are the exact absolute differences.
\<close>

lemma absDiff_exact:
  assumes "\<bar>v - d\<bar> < 2 ^ 53"
  shows "absDiff d v = of_int \<bar>v - d\<bar>"
proof -
  have "0 \<le> v - d + 2 ^ 63" "v - d + 2 ^ 63 < 2 ^ 64" using assms by simp_all
  then have "(v - d + 2 ^ 63) mod 2 ^ 64 = v - d + 2 ^ 63" by (rule mod_pos_pos_trivial)
  then have "wrap64 (v - d) = v - d" by (simp add: wrap64_def)
  then show ?thesis
    using float64_of_int [OF assms] by (simp add: absDiff_def)
qed

lemma MaxFloat64_big: "2 ^ 53 \<le> MaxFloat64"
proof -
  have "(2::rat) ^ 971 = 2 * 2 ^ 970" by simp
  moreover have "(1::rat) \<le> 2 ^ 970" by simp
  ultimately have "(2::rat) \<le> 2 ^ 971" by linarith
  then have "(2 ^ 53 - 1) * (2::rat) \<le> (2 ^ 53 - 1) * 2 ^ 971"
    by (intro mult_left_mono) auto
  then show ?thesis by (simp add: MaxFloat64_def)
qed

lemma closest_nearestInOrder:
  assumes "valid \<noteq> []" and "\<forall>v\<in>set valid. \<bar>v - d\<bar> < 2 ^ 53"
  shows "nearestInOrder d valid = Some (closest d valid)"
proof -
  have ex: "absDiff d v = of_int \<bar>v - d\<bar>" if "v \<in> set valid" for v
    using assms(2) that by (intro absDiff_exact) auto
  have small: "absDiff d v < MaxFloat64" if "v \<in> set valid" for v
  proof -
    from assms(2) that have "\<bar>v - d\<bar> < 2 ^ 53" by auto
    then have "(of_int \<bar>v - d\<bar> :: rat) < of_int (2 ^ 53)" by (simp only: of_int_less_iff)
    with MaxFloat64_big show ?thesis by (simp add: ex [OF that])
  qed
  have le: "absDiff d v \<le> absDiff d w \<longleftrightarrow> \<bar>v - d\<bar> \<le> \<bar>w - d\<bar>"
    if "v \<in> set valid" "w \<in> set valid" for v w
    by (simp only: ex [OF that(1)] ex [OF that(2)] of_int_le_iff)
  have eq: "find (\<lambda>v. absDiff d v < MaxFloat64
                      \<and> (\<forall>w\<in>set valid. absDiff d v \<le> absDiff d w)) valid
      = find (\<lambda>v. \<forall>w\<in>set valid. \<bar>v - d\<bar> \<le> \<bar>w - d\<bar>) valid"
    by (intro find_cong_set) (simp add: small le)
  obtain u where u: "u \<in> set valid" "\<forall>w\<in>set valid. absDiff d u \<le> absDiff d w"
    using exists_min [OF assms(1), of "absDiff d"] by blast
  then have "\<forall>w\<in>set valid. \<bar>u - d\<bar> \<le> \<bar>w - d\<bar>" by (simp add: le)
  with u(1)
  have "find (\<lambda>v. \<forall>w\<in>set valid. \<bar>v - d\<bar> \<le> \<bar>w - d\<bar>) valid \<noteq> None"
    by (auto simp: find_None_iff)
  with eq show ?thesis
    unfolding nearestInOrder_def closest_def closest_loop_find by auto
qed

lemma closest_allowedValidty:
  assumes "\<bar>d\<bar> < 2 ^ 52"
  shows "nearestInOrder d [7, 30, 90, 365, 730, 1095, 5475] = Some (closest d allowedValidty)"
proof -
  have "\<forall>v\<in>set allowedValidty. \<bar>v - d\<bar> < 2 ^ 53"
    using assms by (auto simp: allowedValidty_def)
  then have "nearestInOrder d allowedValidty = Some (closest d allowedValidty)"
    by (intro closest_nearestInOrder) (simp_all add: allowedValidty_def)
  then show ?thesis by (simp add: allowedValidty_def)
qed

lemma durationDays_week: "durationDays (7 * day) = 7"
  using durationDays_whole [of 7] by simp

lemma closest_week: "closest 7 allowedValidty = 7"
  using closest_allowedValidty [of 7] by (simp add: nearestInOrder_def)





section \<open>The condition ledger of an issuer\<close>

lemma SetIssuerStatusCondition_loop_None:
  "(\<forall>c\<in>set conds. Type c \<noteq> Type new) \<Longrightarrow> SetIssuerStatusCondition_loop conds new = None"
  by (induction conds) auto

lemma SetIssuerStatusCondition_loop_Some:
  "(\<forall>c\<in>set pre. Type c \<noteq> Type new) \<Longrightarrow> Type old = Type new \<Longrightarrow>
   SetIssuerStatusCondition_loop (pre @ old # post) new =
     Some (pre @ (if Status old = Status new
                  then new\<lparr>LastTransitionTime := LastTransitionTime old\<rparr> else new) # post)"
  by (induction pre) auto

lemma SetIssuerStatusCondition_absent:
  assumes "\<forall>c\<in>set (issConditions ois). Type c \<noteq> t"
  shows "SetIssuerStatusCondition ois t s now reason message =
           ois\<lparr>issConditions := issConditions ois @
             [\<lparr>Type = t, Status = s, LastTransitionTime = Some now, Reason = reason,
               Message = message\<rparr>]\<rparr>"
  using assms by (simp add: SetIssuerStatusCondition_def SetIssuerStatusCondition_loop_None)

lemma SetIssuerStatusCondition_present:
  assumes "issConditions ois = pre @ old # post" and "\<forall>c\<in>set pre. Type c \<noteq> t"
    and "Type old = t"
  shows "SetIssuerStatusCondition ois t s now reason message =
           ois\<lparr>issConditions := pre @
             \<lparr>Type = t, Status = s,
              LastTransitionTime = (if Status old = s then LastTransitionTime old else Some now),
              Reason = reason, Message = message\<rparr> # post\<rparr>"
  using assms
  by (simp add: SetIssuerStatusCondition_def SetIssuerStatusCondition_loop_Some)

lemma SetIssuerStatusCondition_again:
  "SetIssuerStatusCondition (SetIssuerStatusCondition ois t s now reason message)
       t s later reason message
     = SetIssuerStatusCondition ois t s now reason message"
proof (cases "\<forall>c\<in>set (issConditions ois). Type c \<noteq> t")
  case True
  let ?new = "\<lparr>Type = t, Status = s, LastTransitionTime = Some now, Reason = reason,
               Message = message\<rparr>"
  let ?ois = "ois\<lparr>issConditions := issConditions ois @ [?new]\<rparr>"
  have "SetIssuerStatusCondition ?ois t s later reason message =
          ?ois\<lparr>issConditions := issConditions ois @ [?new]\<rparr>"
    using SetIssuerStatusCondition_present [of ?ois "issConditions ois" ?new "[]" t s later]
      True by simp
  then show ?thesis by (simp add: SetIssuerStatusCondition_absent [OF True])
next
  case False
  then have "\<exists>c\<in>set (issConditions ois). Type c = t" by blast
  then obtain pre old post where
    d: "issConditions ois = pre @ old # post" "Type old = t" "\<forall>c\<in>set pre. Type c \<noteq> t"
    by (auto dest!: split_list_first_prop)
  let ?upd = "\<lparr>Type = t, Status = s,
               LastTransitionTime = (if Status old = s then LastTransitionTime old else Some now),
               Reason = reason, Message = message\<rparr>"
  let ?ois = "ois\<lparr>issConditions := pre @ ?upd # post\<rparr>"
  have "SetIssuerStatusCondition ?ois t s later reason message =
          ?ois\<lparr>issConditions := pre @ ?upd # post\<rparr>"
    using SetIssuerStatusCondition_present [of ?ois pre ?upd post t s later] d(3) by simp
  then show ?thesis
    by (simp add: SetIssuerStatusCondition_present [OF d(1) d(3) d(2)])
qed

text \<open>
  C3. With \<open>new\<close> the condition built from the arguments and the clock: when no condition
  of the type exists, \<open>new\<close> is appended (transition time \<open>now\<close>). Otherwise, for the first
  condition \<open>old\<close> of the type: with the same status it is replaced by \<open>new\<close> carrying the
  transition time of \<open>old\<close>; with another status it is replaced by \<open>new\<close> (transition time
  \<open>now\<close>); so, when the clock has moved on from the old transition time, the transition
  time differs from the old one if and only if the status does. Setting the same
  type, status, reason and message again at any later instant changes nothing.
\<close>

theorem SetIssuerStatusCondition_transition:
  "let new = \<lparr>Type = t, Status = s, LastTransitionTime = Some now, Reason = reason,
              Message = message\<rparr>;
       conds = issConditions ois;
       conds' = issConditions (SetIssuerStatusCondition ois t s now reason message)
   in ((\<forall>c\<in>set conds. Type c \<noteq> t) \<longrightarrow> conds' = conds @ [new])
    \<and> (\<forall>pre old post.
          conds = pre @ old # post \<and> (\<forall>c\<in>set pre. Type c \<noteq> t) \<and> Type old = t \<longrightarrow>
            (Status old = s \<longrightarrow>
               conds' = pre @ new\<lparr>LastTransitionTime := LastTransitionTime old\<rparr> # post)
          \<and> (Status old \<noteq> s \<longrightarrow> conds' = pre @ new # post)
          \<and> (LastTransitionTime old \<noteq> Some now \<longrightarrow>
               (LastTransitionTime (conds' ! length pre) \<noteq> LastTransitionTime old)
                 = (Status old \<noteq> s)))
    \<and> SetIssuerStatusCondition (SetIssuerStatusCondition ois t s now reason message)
          t s later reason message
        = SetIssuerStatusCondition ois t s now reason message"
proof -
  have absent: "(\<forall>c\<in>set (issConditions ois). Type c \<noteq> t) \<longrightarrow>
      issConditions (SetIssuerStatusCondition ois t s now reason message) =
      issConditions ois @ [\<lparr>Type = t, Status = s, LastTransitionTime = Some now,
                            Reason = reason, Message = message\<rparr>]"
    by (simp add: SetIssuerStatusCondition_absent)
  have present: "issConditions (SetIssuerStatusCondition ois t s now reason message) =
      pre @ \<lparr>Type = t, Status = s,
              LastTransitionTime = (if Status old = s then LastTransitionTime old else Some now),
              Reason = reason, Message = message\<rparr> # post"
    if "issConditions ois = pre @ old # post" "\<forall>c\<in>set pre. Type c \<noteq> t" "Type old = t"
    for pre old post
    using that by (simp add: SetIssuerStatusCondition_present)
  show ?thesis
    unfolding Let_def
    apply (intro conjI allI impI)
        apply (simp add: absent)
       apply (simp add: present)
      apply (simp add: present)
     apply (auto simp add: present)[1]
    apply (rule SetIssuerStatusCondition_again)
    done
qed

theorem SetIssuerStatusCondition_transition_witness:
  "issConditions (SetIssuerStatusCondition (issStatus exampleIssuer) ''Ready'' ''False'' 7
       ''NotFound'' ''no secret'')
     = [\<lparr>Type = ''Ready'', Status = ''False'', LastTransitionTime = Some 7,
         Reason = ''NotFound'', Message = ''no secret''\<rparr>]
   \<and> issConditions (SetIssuerStatusCondition (issStatus exampleIssuer) ''Ready'' ''True'' 7
       ''Verified'' ''ready'')
     = [\<lparr>Type = ''Ready'', Status = ''True'', LastTransitionTime = None,
         Reason = ''Verified'', Message = ''ready''\<rparr>]
   \<and> issConditions (SetIssuerStatusCondition (issStatus exampleIssuer) ''Other'' ''True'' 7
       ''r'' ''m'')
     = issConditions (issStatus exampleIssuer)
         @ [\<lparr>Type = ''Other'', Status = ''True'', LastTransitionTime = Some 7,
              Reason = ''r'', Message = ''m''\<rparr>]"
proof -
  let ?old = "\<lparr>Type = ''Ready'', Status = ''True'', LastTransitionTime = None,
               Reason = [], Message = []\<rparr>"
  have c: "issConditions (issStatus exampleIssuer) = [] @ ?old # []"
    by (simp add: exampleIssuer_def)
  note T = SetIssuerStatusCondition_transition [unfolded Let_def]
  have differs: "issConditions (SetIssuerStatusCondition (issStatus exampleIssuer)
       ''Ready'' ''False'' 7 ''NotFound'' ''no secret'')
     = [\<lparr>Type = ''Ready'', Status = ''False'', LastTransitionTime = Some 7,
         Reason = ''NotFound'', Message = ''no secret''\<rparr>]"
    using T [where t = "''Ready''" and ois = "issStatus exampleIssuer" and s = "''False''" and now = 7
        and reason = "''NotFound''" and message = "''no secret''", THEN conjunct2, THEN conjunct1, rule_format, of "[]" ?old "[]"] c
    by simp
  have same: "issConditions (SetIssuerStatusCondition (issStatus exampleIssuer)
       ''Ready'' ''True'' 7 ''Verified'' ''ready'')
     = [\<lparr>Type = ''Ready'', Status = ''True'', LastTransitionTime = None,
         Reason = ''Verified'', Message = ''ready''\<rparr>]"
    using T [where t = "''Ready''" and ois = "issStatus exampleIssuer" and s = "''True''" and now = 7
        and reason = "''Verified''" and message = "''ready''", THEN conjunct2, THEN conjunct1, rule_format, of "[]" ?old "[]"] c
    by simp
  have absent: "issConditions (SetIssuerStatusCondition (issStatus exampleIssuer)
       ''Other'' ''True'' 7 ''r'' ''m'')
     = issConditions (issStatus exampleIssuer)
         @ [\<lparr>Type = ''Other'', Status = ''True'', LastTransitionTime = Some 7,
              Reason = ''r'', Message = ''m''\<rparr>]"
    using T [where t = "''Other''" and ois = "issStatus exampleIssuer" and s = "''True''" and now = 7
        and reason = "''r''" and message = "''m''",
        THEN conjunct1] c
    by simp
  from differs same absent show ?thesis by simp
qed

section \<open>What \<open>Sign\<close> sends and returns\<close>

lemma Sign_decoded:
  assumes "DecodeX509CertificateRequestBytes lib (Request (crSpec cr)) = Inr csr"
  shows "Sign lib p cr =
    (let req = \<lparr>srHostnames = DNSNames csr,
                srValidity = (case Duration (crSpec cr) of
                                None \<Rightarrow> DefaultDurationInternval
                              | Some d \<Rightarrow> closest (durationDays d) allowedValidty),
                srType = (if reqType p = RequestTypeOriginECC then ''origin-ecc''
                          else if reqType p = RequestTypeOriginRSA then ''origin-rsa''
                          else ''''),
                srCSR = Request (crSpec cr)\<rparr>
     in (case client p req of
           Inl err \<Rightarrow> Inl (Wrapped ''unable to sign request: '' err)
         | Inr r \<Rightarrow> Inr (respCertificate r),
         [SignerSign req (client p req)]))"
  using assms by (simp add: Sign_def Let_def)

text \<open>
  C9, as stated, fails: the error of the remote signer comes back wrapped under the
  prefix \<open>unable to sign request: \<close>, not as it was.
\<close>

theorem Sign_error_counterexample:
  "failingSigner \<lparr>srHostnames = [''example.com''], srValidity = 7, srType = ''origin-ecc'',
                   srCSR = ''CSR''\<rparr> = Inl dbWriteError
   \<and> Sign exampleLibrary \<lparr>client = failingSigner, reqType = ''OriginECC''\<rparr> exampleRequest
       = (Inl (Wrapped ''unable to sign request: '' dbWriteError),
          [SignerSign \<lparr>srHostnames = [''example.com''], srValidity = 7,
                        srType = ''origin-ecc'', srCSR = ''CSR''\<rparr> (Inl dbWriteError)])
   \<and> Wrapped ''unable to sign request: '' dbWriteError \<noteq> dbWriteError"
proof -
  have d: "DecodeX509CertificateRequestBytes exampleLibrary (Request (crSpec exampleRequest))
             = Inr \<lparr>DNSNames = [''example.com'']\<rparr>"
    by (simp add: exampleLibrary_def exampleRequest_def)
  note v = closest_week
  note dd = durationDays_week
  have s: "Duration (crSpec exampleRequest) = Some (7 * day)"
       "Request (crSpec exampleRequest) = ''CSR''"
    by (simp_all add: exampleRequest_def)
  show ?thesis
    unfolding Sign_decoded [OF d] s
    by (simp add: Let_def RequestTypeOriginECC_def failingSigner_def dbWriteError_def v dd)
qed

text \<open>
  C9, amended. When the CSR decodes, \<open>Sign\<close> calls the signer once. When the signer
  fails with \<open>err\<close>, \<open>Sign\<close> returns \<open>err\<close> wrapped under the prefix
  \<open>unable to sign request: \<close>: the message is the prefix followed by the message of
  \<open>err\<close>, and \<open>errors.As\<close> finds in it the API error it finds in \<open>err\<close>. When the signer
  succeeds, \<open>Sign\<close> returns the certificate of the response.
\<close>

theorem Sign_result:
  assumes "DecodeX509CertificateRequestBytes lib (Request (crSpec cr)) = Inr csr"
  shows "\<exists>req. snd (Sign lib p cr) = [SignerSign req (client p req)]
           \<and> (\<forall>err. client p req = Inl err \<longrightarrow>
                  fst (Sign lib p cr) = Inl (Wrapped ''unable to sign request: '' err)
                \<and> Error (Wrapped ''unable to sign request: '' err)
                    = ''unable to sign request: '' @ Error err
                \<and> errorsAsAPIError (Wrapped ''unable to sign request: '' err)
                    = errorsAsAPIError err)
           \<and> (\<forall>resp. client p req = Inr resp \<longrightarrow>
                  fst (Sign lib p cr) = Inr (respCertificate resp))"
  by (simp add: Sign_decoded [OF assms] Let_def)

theorem Sign_result_witness:
  "DecodeX509CertificateRequestBytes exampleLibrary (Request (crSpec exampleRequest))
     = Inr \<lparr>DNSNames = [''example.com'']\<rparr>
   \<and> (\<exists>req. snd (Sign exampleLibrary \<lparr>client = failingSigner, reqType = ''OriginECC''\<rparr>
                      exampleRequest) = [SignerSign req (Inl dbWriteError)]
            \<and> fst (Sign exampleLibrary \<lparr>client = failingSigner, reqType = ''OriginECC''\<rparr>
                      exampleRequest) = Inl (Wrapped ''unable to sign request: '' dbWriteError))
   \<and> (\<exists>req. snd (Sign exampleLibrary \<lparr>client = bogusSigner, reqType = ''OriginECC''\<rparr>
                      exampleRequest)
               = [SignerSign req (Inr \<lparr>respId = ''1'', respCertificate = ''bogus''\<rparr>)]
            \<and> fst (Sign exampleLibrary \<lparr>client = bogusSigner, reqType = ''OriginECC''\<rparr>
                      exampleRequest) = Inr ''bogus'')"
proof -
  have d: "DecodeX509CertificateRequestBytes exampleLibrary (Request (crSpec exampleRequest))
             = Inr \<lparr>DNSNames = [''example.com'']\<rparr>"
    by (simp add: exampleLibrary_def exampleRequest_def)
  from Sign_result [OF d, of "\<lparr>client = failingSigner, reqType = ''OriginECC''\<rparr>"]
  have f: "\<exists>req. snd (Sign exampleLibrary \<lparr>client = failingSigner, reqType = ''OriginECC''\<rparr>
                      exampleRequest) = [SignerSign req (Inl dbWriteError)]
            \<and> fst (Sign exampleLibrary \<lparr>client = failingSigner, reqType = ''OriginECC''\<rparr>
                      exampleRequest) = Inl (Wrapped ''unable to sign request: '' dbWriteError)"
    by (simp add: failingSigner_def)
  from Sign_result [OF d, of "\<lparr>client = bogusSigner, reqType = ''OriginECC''\<rparr>"]
  have b: "\<exists>req. snd (Sign exampleLibrary \<lparr>client = bogusSigner, reqType = ''OriginECC''\<rparr>
                      exampleRequest)
               = [SignerSign req (Inr \<lparr>respId = ''1'', respCertificate = ''bogus''\<rparr>)]
            \<and> fst (Sign exampleLibrary \<lparr>client = bogusSigner, reqType = ''OriginECC''\<rparr>
                      exampleRequest) = Inr ''bogus''"
    by (simp add: bogusSigner_def)
  from d f b show ?thesis by blast
qed

text \<open>
  C10. A provisioner is built for any request type, and when the type is neither the
  ECC nor the RSA constant and the CSR decodes, \<open>Sign\<close> sends exactly one request: the
  hostnames of the CSR, the validity computed from the duration, the CSR itself, and
  the empty string as type tag. It returns what the signer's answer to that request
  determines.
\<close>

theorem Sign_unrecognized_type:
  assumes "rt \<noteq> RequestTypeOriginECC" and "rt \<noteq> RequestTypeOriginRSA"
    and "DecodeX509CertificateRequestBytes lib (Request (crSpec cr)) = Inr csr"
  shows "New c rt = Inr \<lparr>client = c, reqType = rt\<rparr>
         \<and> Sign lib \<lparr>client = c, reqType = rt\<rparr> cr =
             (case c \<lparr>srHostnames = DNSNames csr,
                       srValidity = (case Duration (crSpec cr) of
                                       None \<Rightarrow> 7
                                     | Some d \<Rightarrow> closest (durationDays d) allowedValidty),
                       srType = '''', srCSR = Request (crSpec cr)\<rparr> of
                Inl err \<Rightarrow> Inl (Wrapped ''unable to sign request: '' err)
              | Inr resp \<Rightarrow> Inr (respCertificate resp),
              [SignerSign
                 \<lparr>srHostnames = DNSNames csr,
                  srValidity = (case Duration (crSpec cr) of
                                  None \<Rightarrow> 7
                                | Some d \<Rightarrow> closest (durationDays d) allowedValidty),
                  srType = '''', srCSR = Request (crSpec cr)\<rparr>
                 (c \<lparr>srHostnames = DNSNames csr,
                     srValidity = (case Duration (crSpec cr) of
                                     None \<Rightarrow> 7
                                   | Some d \<Rightarrow> closest (durationDays d) allowedValidty),
                     srType = '''', srCSR = Request (crSpec cr)\<rparr>)])"
  using assms(1,2) unfolding Sign_decoded [OF assms(3)] DefaultDurationInternval_def
  by (simp add: New_def Let_def)

theorem Sign_unrecognized_type_witness:
  "''colemak'' \<noteq> RequestTypeOriginECC \<and> ''colemak'' \<noteq> RequestTypeOriginRSA
   \<and> DecodeX509CertificateRequestBytes exampleLibrary (Request (crSpec exampleRequest))
       = Inr \<lparr>DNSNames = [''example.com'']\<rparr>
   \<and> New bogusSigner ''colemak'' = Inr \<lparr>client = bogusSigner, reqType = ''colemak''\<rparr>
   \<and> Sign exampleLibrary \<lparr>client = bogusSigner, reqType = ''colemak''\<rparr> exampleRequest
       = (Inr ''bogus'',
          [SignerSign \<lparr>srHostnames = [''example.com''], srValidity = 7, srType = '''',
                        srCSR = ''CSR''\<rparr>
             (Inr \<lparr>respId = ''1'', respCertificate = ''bogus''\<rparr>)])"
proof -
  have h1: "''colemak'' \<noteq> RequestTypeOriginECC" by (simp add: RequestTypeOriginECC_def)
  have h2: "''colemak'' \<noteq> RequestTypeOriginRSA" by (simp add: RequestTypeOriginRSA_def)
  have h3: "DecodeX509CertificateRequestBytes exampleLibrary (Request (crSpec exampleRequest))
             = Inr \<lparr>DNSNames = [''example.com'']\<rparr>"
    by (simp add: exampleLibrary_def exampleRequest_def)
  have s: "Duration (crSpec exampleRequest) = Some (7 * day)"
       "Request (crSpec exampleRequest) = ''CSR''"
    by (simp_all add: exampleRequest_def)
  from Sign_unrecognized_type [OF h1 h2 h3, of bogusSigner] h1 h2 h3 show ?thesis
    unfolding s by (simp add: durationDays_week closest_week bogusSigner_def)
qed

section \<open>Requests that \<open>Reconcile\<close> leaves alone\<close>

lemma settled_HasCondition:
  "settled cr \<longleftrightarrow>
     CertificateRequestHasCondition cr (readyCondition cmmeta_ConditionTrue '''')
   \<or> CertificateRequestHasCondition cr
        (readyCondition cmmeta_ConditionFalse CertificateRequestReasonFailed)
   \<or> CertificateRequestHasCondition cr
        (readyCondition cmmeta_ConditionFalse CertificateRequestReasonDenied)"
  unfolding settled_def CertificateRequestHasCondition_def readyCondition_def list_ex_iff
    cmmeta_ConditionTrue_def cmmeta_ConditionFalse_def CertificateRequestReasonFailed_def
    CertificateRequestReasonDenied_def CertificateRequestConditionReady_def
  apply simp
  apply (rule iffI)
   apply (elim bexE conjE disjE)
     apply (rule disjI1, metis)
    apply (rule disjI2, rule disjI1, metis)
   apply (rule disjI2, rule disjI2, metis)
  apply (elim bexE conjE disjE)
    apply metis
   apply metis
  apply metis
  done

text \<open>
  C1. A request that carries Ready=True, Ready=False/Failed or Ready=False/Denied is
  returned as it is, with no error and with no call made: neither the signer nor the
  store is touched.
\<close>

theorem Reconcile_settled:
  assumes "\<exists>c\<in>set (Conditions (crStatus cr)).
             Type c = ''Ready''
             \<and> (Status c = ''True''
                \<or> Status c = ''False'' \<and> (Reason c = ''Failed'' \<or> Reason c = ''Denied''))"
  shows "Reconcile r cr = \<lparr>outRequest = cr, outError = None, outTrace = []\<rparr>"
proof -
  from assms have "settled cr" by (simp add: settled_def list_ex_iff)
  then show ?thesis
    unfolding settled_HasCondition by (auto simp: Reconcile_def Let_def)
qed

theorem Reconcile_settled_witness:
  "(\<exists>c\<in>set (Conditions (crStatus (withConditions
        [\<lparr>Type = ''Ready'', Status = ''False'', LastTransitionTime = Some 5,
          Reason = ''Failed'', Message = ''Failed to sign certificate request''\<rparr>]
        exampleRequest))).
      Type c = ''Ready''
      \<and> (Status c = ''True''
         \<or> Status c = ''False'' \<and> (Reason c = ''Failed'' \<or> Reason c = ''Denied'')))
   \<and> Reconcile (exampleController (\<lambda>k. Inr bogusSigner) None)
        (withConditions
          [\<lparr>Type = ''Ready'', Status = ''False'', LastTransitionTime = Some 5,
            Reason = ''Failed'', Message = ''Failed to sign certificate request''\<rparr>]
          exampleRequest)
     = \<lparr>outRequest = withConditions
          [\<lparr>Type = ''Ready'', Status = ''False'', LastTransitionTime = Some 5,
            Reason = ''Failed'', Message = ''Failed to sign certificate request''\<rparr>]
          exampleRequest,
        outError = None, outTrace = []\<rparr>"
proof -
  let ?cr = "withConditions
          [\<lparr>Type = ''Ready'', Status = ''False'', LastTransitionTime = Some 5,
            Reason = ''Failed'', Message = ''Failed to sign certificate request''\<rparr>]
          exampleRequest"
  have h: "\<exists>c\<in>set (Conditions (crStatus ?cr)).
      Type c = ''Ready''
      \<and> (Status c = ''True''
         \<or> Status c = ''False'' \<and> (Reason c = ''Failed'' \<or> Reason c = ''Denied''))"
    by (simp add: withConditions_def)
  from h Reconcile_settled [OF h] show ?thesis by blast
qed

section \<open>An issued certificate stays\<close>

lemma setStatus_keeps:
  "setStatus r cr status reason message = (cr', e, tr) \<Longrightarrow>
     Certificate (crStatus cr') = Certificate (crStatus cr)
   \<and> FailureTime (crStatus cr') = FailureTime (crStatus cr)
   \<and> crSpec cr' = crSpec cr \<and> crNamespace cr' = crNamespace cr \<and> crName cr' = crName cr
   \<and> tr = [StatusUpdate cr'] \<and> e = ClientStatusUpdate r cr'"
  by (auto simp: setStatus_def SetCertificateRequestCondition_def Let_def)

text \<open>
  C8. When the certificate field of the status is not empty, \<open>Reconcile\<close> leaves it as
  it is and hands nothing to the signer.
\<close>

theorem Reconcile_keeps_certificate:
  assumes "Certificate (crStatus cr) \<noteq> []"
  shows "Certificate (crStatus (outRequest (Reconcile r cr))) = Certificate (crStatus cr)
         \<and> signerCalls (outTrace (Reconcile r cr)) = []"
  using assms
  by (auto simp: Reconcile_def Let_def split: prod.splits dest!: setStatus_keeps)

theorem Reconcile_keeps_certificate_witness:
  "Certificate (crStatus (withCertificate ''PEM'' exampleRequest)) \<noteq> []
   \<and> Certificate (crStatus (outRequest (Reconcile (exampleController (\<lambda>k. Inr bogusSigner) None)
        (withCertificate ''PEM'' exampleRequest)))) = ''PEM''
   \<and> signerCalls (outTrace (Reconcile (exampleController (\<lambda>k. Inr bogusSigner) None)
        (withCertificate ''PEM'' exampleRequest))) = []"
proof -
  have h: "Certificate (crStatus (withCertificate ''PEM'' exampleRequest)) \<noteq> []"
    by (simp add: withCertificate_def)
  have c: "Certificate (crStatus (withCertificate ''PEM'' exampleRequest)) = ''PEM''"
    by (simp add: withCertificate_def)
  from h Reconcile_keeps_certificate [OF h, of "exampleController (\<lambda>k. Inr bogusSigner) None"]
  show ?thesis unfolding c by blast
qed

section \<open>The stages of \<open>Reconcile\<close>, case by case\<close>

lemma failWith_eq:
  "failWith r cr tr status reason message err =
     \<lparr>outRequest = SetCertificateRequestCondition (cmutilClockNow r) cr
                      CertificateRequestConditionReady status reason message,
      outError = Some err,
      outTrace = tr @ [StatusUpdate (SetCertificateRequestCondition (cmutilClockNow r) cr
                         CertificateRequestConditionReady status reason message)]\<rparr>"
  by (simp add: failWith_def setStatus_def Let_def)

lemma Sign_undecoded:
  assumes "DecodeX509CertificateRequestBytes lib (Request (crSpec cr)) = Inl err"
  shows "Sign lib p cr = (Inl (Opaque (''failed to decode CSR for signing: '' @ Error err)), [])"
  using assms by (simp add: Sign_def)

lemma Sign_signRequest:
  assumes "DecodeX509CertificateRequestBytes lib (Request (crSpec cr)) = Inr csr"
  shows "Sign lib p cr =
     (case client p (signRequest (reqType p) cr csr) of
        Inl err \<Rightarrow> Inl (Wrapped ''unable to sign request: '' err)
      | Inr resp \<Rightarrow> Inr (respCertificate resp),
      [SignerSign (signRequest (reqType p) cr csr)
         (client p (signRequest (reqType p) cr csr))])"
  using assms by (simp add: Sign_def Let_def signRequest_def)

text \<open>The five ways through the last stage.\<close>

lemma Reconcile_sign_cases:
  obtains
    (factory) err where
      "FactoryAPIWith r key = Inl err"
      "Reconcile_sign r cr spec key tr0 =
         \<lparr>outRequest = cr, outError = Some err, outTrace = tr0 @ [APIWith key]\<rparr>"
  | (undecoded) c err where
      "FactoryAPIWith r key = Inr c"
      "DecodeX509CertificateRequestBytes (Lib r) (Request (crSpec cr)) = Inl err"
      "Reconcile_sign r cr spec key tr0 =
         failWith r cr (tr0 @ [APIWith key]) cmmeta_ConditionFalse
           CertificateRequestReasonFailed
           (''Failed to sign certificate request: ''
              @ ''failed to decode CSR for signing: '' @ Error err)
           (Opaque (''failed to decode CSR for signing: '' @ Error err))"
  | (requeue) c csr err a where
      "FactoryAPIWith r key = Inr c"
      "DecodeX509CertificateRequestBytes (Lib r) (Request (crSpec cr)) = Inr csr"
      "c (signRequest (RequestType spec) cr csr) = Inl err"
      "errorsAsAPIError err = Some a" "Code a = originDBWriteErrorCode"
      "Reconcile_sign r cr spec key tr0 =
         \<lparr>outRequest = cr,
          outError = Some (Wrapped ''unable to sign request: '' err),
          outTrace = tr0 @ [APIWith key,
                            SignerSign (signRequest (RequestType spec) cr csr)
                              (Inl err)]\<rparr>"
  | (failed) c csr err where
      "FactoryAPIWith r key = Inr c"
      "DecodeX509CertificateRequestBytes (Lib r) (Request (crSpec cr)) = Inr csr"
      "c (signRequest (RequestType spec) cr csr) = Inl err"
      "\<forall>a. errorsAsAPIError err = Some a \<longrightarrow> Code a \<noteq> originDBWriteErrorCode"
      "Reconcile_sign r cr spec key tr0 =
         failWith r cr
           (tr0 @ [APIWith key,
                   SignerSign (signRequest (RequestType spec) cr csr) (Inl err)])
           cmmeta_ConditionFalse CertificateRequestReasonFailed
           (''Failed to sign certificate request: ''
              @ ''unable to sign request: '' @ Error err)
           (Wrapped ''unable to sign request: '' err)"
  | (issued) c csr resp where
      "FactoryAPIWith r key = Inr c"
      "DecodeX509CertificateRequestBytes (Lib r) (Request (crSpec cr)) = Inr csr"
      "c (signRequest (RequestType spec) cr csr) = Inr resp"
      "Reconcile_sign r cr spec key tr0 =
         \<lparr>outRequest =
            SetCertificateRequestCondition (cmutilClockNow r)
              (cr\<lparr>crStatus := (crStatus cr)\<lparr>Certificate := respCertificate resp\<rparr>\<rparr>)
              CertificateRequestConditionReady cmmeta_ConditionTrue
              CertificateRequestReasonIssued ''Certificate issued'',
          outError = None,
          outTrace = tr0 @ [APIWith key,
                            SignerSign (signRequest (RequestType spec) cr csr)
                              (Inr resp),
                            StatusUpdate
                              (SetCertificateRequestCondition (cmutilClockNow r)
                                 (cr\<lparr>crStatus := (crStatus cr)\<lparr>Certificate :=
                                        respCertificate resp\<rparr>\<rparr>)
                                 CertificateRequestConditionReady cmmeta_ConditionTrue
                                 CertificateRequestReasonIssued ''Certificate issued'')]\<rparr>"
proof (cases "FactoryAPIWith r key")
  case (Inl err)
  then show ?thesis by (intro factory [of err]) (simp_all add: Reconcile_sign_def)
next
  case c: (Inr c)
  show ?thesis
  proof (cases "DecodeX509CertificateRequestBytes (Lib r) (Request (crSpec cr))")
    case (Inl err)
    with c show ?thesis
      by (intro undecoded [of c err])
        (simp_all add: Reconcile_sign_def New_def Sign_undecoded)
  next
    case d: (Inr csr)
    note S = Sign_signRequest [OF d, of "\<lparr>client = c, reqType = RequestType spec\<rparr>"]
    show ?thesis
    proof (cases "c (signRequest (RequestType spec) cr csr)")
      case e: (Inl err)
      show ?thesis
      proof (cases "\<exists>a. errorsAsAPIError err = Some a \<and> Code a = originDBWriteErrorCode")
        case True
        then obtain a where a: "errorsAsAPIError err = Some a" "Code a = originDBWriteErrorCode"
          by blast
        with c d e show ?thesis
          by (intro requeue [of c csr err a])
            (simp_all add: Reconcile_sign_def New_def S)
      next
        case False
        with c d e show ?thesis
          by (intro failed [of c csr err])
            (auto simp add: Reconcile_sign_def New_def S split: option.splits)
      qed
    next
      case (Inr resp)
      with c d show ?thesis
        by (intro issued [of c csr resp])
          (simp_all add: Reconcile_sign_def New_def S setStatus_def Let_def)
    qed
  qed
qed

text \<open>The three ways through the lookup of the secret.\<close>

lemma Reconcile_secret_cases:
  obtains
    (unreadable) err where
      "ReaderGetSecret r n = Inl err"
      "Reconcile_secret r cr n spec tr0 =
         failWith r cr (tr0 @ [GetSecret n]) cmmeta_ConditionFalse
           (if IsNotFound err then ''NotFound'' else ''Error'')
           (''Failed to retrieve auth secret: '' @ Error err) err"
  | (nokey) secret where
      "ReaderGetSecret r n = Inr secret"
      "Data secret (skKey (ServiceKeyRef (Auth spec))) = None"
      "Reconcile_secret r cr n spec tr0 =
         failWith r cr (tr0 @ [GetSecret n]) cmmeta_ConditionFalse ''NotFound''
           (''Failed to retrieve auth secret: '' @ ''secret '' @ secretName secret
              @ '' does not contain key '' @ quoted (skKey (ServiceKeyRef (Auth spec))))
           (Opaque (''secret '' @ secretName secret @ '' does not contain key ''
                    @ quoted (skKey (ServiceKeyRef (Auth spec)))))"
  | (found) secret serviceKey where
      "ReaderGetSecret r n = Inr secret"
      "Data secret (skKey (ServiceKeyRef (Auth spec))) = Some serviceKey"
      "Reconcile_secret r cr n spec tr0 =
         Reconcile_sign r cr spec serviceKey (tr0 @ [GetSecret n])"
proof (cases "ReaderGetSecret r n")
  case (Inl err)
  then show ?thesis
    by (intro unreadable [of err]) (simp_all add: Reconcile_secret_def)
next
  case s: (Inr secret)
  show ?thesis
  proof (cases "Data secret (skKey (ServiceKeyRef (Auth spec)))")
    case None
    with s show ?thesis
      by (intro nokey [of secret]) (simp_all add: Reconcile_secret_def Let_def)
  next
    case (Some serviceKey)
    with s show ?thesis
      by (intro found [of secret serviceKey]) (simp_all add: Reconcile_secret_def)
  qed
qed

text \<open>The seven ways through the \<open>switch\<close> on the issuer kind.\<close>

lemma Reconcile_issuer_cases:
  obtains
    (unknown)
      "refKind (IssuerRef (crSpec cr)) \<noteq> ''OriginIssuer''"
      "refKind (IssuerRef (crSpec cr)) \<noteq> ''ClusterOriginIssuer''"
      "Reconcile_issuer r cr =
         failWith r cr [] cmmeta_ConditionFalse CertificateRequestReasonFailed
           (''Unknown issuer kind: '' @ refKind (IssuerRef (crSpec cr)))
           (Opaque (''unknown issuer kind: '' @ refKind (IssuerRef (crSpec cr))))"
  | (missing) k err where
      "refKind (IssuerRef (crSpec cr)) = ''OriginIssuer''"
      "k = \<lparr>nnNamespace = crNamespace cr, nnName = refName (IssuerRef (crSpec cr))\<rparr>"
      "ClientGetOriginIssuer r k = Inl err"
      "Reconcile_issuer r cr =
         failWith r cr [GetOriginIssuer k] cmmeta_ConditionFalse
           CertificateRequestReasonPending
           (''Failed to retrieve OriginIssuer resource '' @ nnString k @ '': '' @ Error err)
           err"
  | (unready) k iss where
      "refKind (IssuerRef (crSpec cr)) = ''OriginIssuer''"
      "k = \<lparr>nnNamespace = crNamespace cr, nnName = refName (IssuerRef (crSpec cr))\<rparr>"
      "ClientGetOriginIssuer r k = Inr iss"
      "\<not> IssuerStatusHasCondition (issStatus iss) readyTrue"
      "Reconcile_issuer r cr =
         failWith r cr [GetOriginIssuer k] cmmeta_ConditionFalse
           CertificateRequestReasonPending
           (''OriginIssuer '' @ nnString k @ '' is not Ready'')
           (Opaque (''resource '' @ nnString k @ '' is not ready''))"
  | (namespaced) k iss where
      "refKind (IssuerRef (crSpec cr)) = ''OriginIssuer''"
      "k = \<lparr>nnNamespace = crNamespace cr, nnName = refName (IssuerRef (crSpec cr))\<rparr>"
      "ClientGetOriginIssuer r k = Inr iss"
      "IssuerStatusHasCondition (issStatus iss) readyTrue"
      "Reconcile_issuer r cr =
         Reconcile_secret r cr
           \<lparr>nnNamespace = issNamespace iss,
            nnName = skName (ServiceKeyRef (Auth (issSpec iss)))\<rparr>
           (issSpec iss) [GetOriginIssuer k]"
  | (cluster_missing) k err where
      "refKind (IssuerRef (crSpec cr)) = ''ClusterOriginIssuer''"
      "k = \<lparr>nnNamespace = '''', nnName = refName (IssuerRef (crSpec cr))\<rparr>"
      "ClientGetClusterOriginIssuer r k = Inl err"
      "Reconcile_issuer r cr =
         failWith r cr [GetClusterOriginIssuer k] cmmeta_ConditionFalse
           CertificateRequestReasonPending
           (''Failed to retrieve OriginIssuer resource '' @ nnString k @ '': '' @ Error err)
           err"
  | (cluster_unready) k iss where
      "refKind (IssuerRef (crSpec cr)) = ''ClusterOriginIssuer''"
      "k = \<lparr>nnNamespace = '''', nnName = refName (IssuerRef (crSpec cr))\<rparr>"
      "ClientGetClusterOriginIssuer r k = Inr iss"
      "\<not> IssuerStatusHasCondition (cissStatus iss) readyTrue"
      "Reconcile_issuer r cr =
         failWith r cr [GetClusterOriginIssuer k] cmmeta_ConditionFalse
           CertificateRequestReasonPending
           (''OriginIssuer '' @ nnString k @ '' is not Ready'')
           (Opaque (''resource '' @ nnString k @ '' is not ready''))"
  | (cluster) k iss where
      "refKind (IssuerRef (crSpec cr)) = ''ClusterOriginIssuer''"
      "k = \<lparr>nnNamespace = '''', nnName = refName (IssuerRef (crSpec cr))\<rparr>"
      "ClientGetClusterOriginIssuer r k = Inr iss"
      "IssuerStatusHasCondition (cissStatus iss) readyTrue"
      "Reconcile_issuer r cr =
         Reconcile_secret r cr
           \<lparr>nnNamespace = ClusterResourceNamespace r,
            nnName = skName (ServiceKeyRef (Auth (cissSpec iss)))\<rparr>
           (cissSpec iss) [GetClusterOriginIssuer k]"
proof (cases "refKind (IssuerRef (crSpec cr)) = ''OriginIssuer''")
  case kind: True
  let ?k = "\<lparr>nnNamespace = crNamespace cr, nnName = refName (IssuerRef (crSpec cr))\<rparr>"
  show ?thesis
  proof (cases "ClientGetOriginIssuer r ?k")
    case (Inl err)
    with kind show ?thesis
      by (intro missing [of ?k err]) (simp_all add: Reconcile_issuer_def Let_def)
  next
    case (Inr iss)
    with kind show ?thesis
      by (cases "IssuerStatusHasCondition (issStatus iss) readyTrue")
        (intro namespaced [of ?k iss], simp_all add: Reconcile_issuer_def Let_def,
         intro unready [of ?k iss], simp_all add: Reconcile_issuer_def Let_def)
  qed
next
  case other: False
  show ?thesis
  proof (cases "refKind (IssuerRef (crSpec cr)) = ''ClusterOriginIssuer''")
    case kind: True
    let ?k = "\<lparr>nnNamespace = '''', nnName = refName (IssuerRef (crSpec cr))\<rparr>"
    show ?thesis
    proof (cases "ClientGetClusterOriginIssuer r ?k")
      case (Inl err)
      with kind show ?thesis
        by (intro cluster_missing [of ?k err]) (simp_all add: Reconcile_issuer_def Let_def)
    next
      case (Inr iss)
      with kind show ?thesis
        by (cases "IssuerStatusHasCondition (cissStatus iss) readyTrue")
          (intro cluster [of ?k iss], simp_all add: Reconcile_issuer_def Let_def,
           intro cluster_unready [of ?k iss], simp_all add: Reconcile_issuer_def Let_def)
    qed
  next
    case False
    with other show ?thesis
      by (intro unknown) (simp_all add: Reconcile_issuer_def)
  qed
qed

text \<open>The ways through the part of \<open>Reconcile\<close> before the issuer is resolved.\<close>

lemma Reconcile_cases:
  obtains
    (foreign)
      "refGroup (IssuerRef (crSpec cr)) \<noteq> ''''"
      "refGroup (IssuerRef (crSpec cr)) \<noteq> GroupVersion_Group"
      "Reconcile r cr = \<lparr>outRequest = cr, outError = None, outTrace = []\<rparr>"
  | (already)
      "settled cr"
      "Reconcile r cr = \<lparr>outRequest = cr, outError = None, outTrace = []\<rparr>"
  | (denied) cr1 cr2 where
      "refGroup (IssuerRef (crSpec cr)) = ''''
       \<or> refGroup (IssuerRef (crSpec cr)) = GroupVersion_Group"
      "\<not> settled cr" "CertificateRequestIsDenied cr"
      "cr1 = (if FailureTime (crStatus cr) = None
              then cr\<lparr>crStatus := (crStatus cr)\<lparr>FailureTime := Some (ClockNow r)\<rparr>\<rparr>
              else cr)"
      "cr2 = SetCertificateRequestCondition (cmutilClockNow r) cr1
               CertificateRequestConditionReady cmmeta_ConditionFalse
               CertificateRequestReasonDenied
               ''The CertificateRequest was denied by an approval controller''"
      "Reconcile r cr =
         \<lparr>outRequest = cr2, outError = ClientStatusUpdate r cr2,
          outTrace = [StatusUpdate cr2]\<rparr>"
  | (waiting)
      "\<not> settled cr" "\<not> CertificateRequestIsDenied cr"
      "CheckApprovedCondition r \<and> \<not> CertificateRequestIsApproved cr
       \<or> Certificate (crStatus cr) \<noteq> [] \<or> IsCA (crSpec cr)"
      "Reconcile r cr = \<lparr>outRequest = cr, outError = None, outTrace = []\<rparr>"
  | (resolve)
      "refGroup (IssuerRef (crSpec cr)) = ''''
       \<or> refGroup (IssuerRef (crSpec cr)) = GroupVersion_Group"
      "\<not> settled cr" "\<not> CertificateRequestIsDenied cr"
      "CheckApprovedCondition r \<longrightarrow> CertificateRequestIsApproved cr"
      "Certificate (crStatus cr) = []" "\<not> IsCA (crSpec cr)"
      "Reconcile r cr = Reconcile_issuer r cr"
proof (cases "refGroup (IssuerRef (crSpec cr)) \<noteq> ''''
              \<and> refGroup (IssuerRef (crSpec cr)) \<noteq> GroupVersion_Group")
  case True
  then show ?thesis by (intro foreign) (simp_all add: Reconcile_def)
next
  case group: False
  show ?thesis
  proof (cases "settled cr")
    case True
    then have "Reconcile r cr = \<lparr>outRequest = cr, outError = None, outTrace = []\<rparr>"
      unfolding settled_HasCondition by (auto simp: Reconcile_def Let_def)
    with True show ?thesis by (intro already)
  next
    case unsettled: False
    then have H: "\<not> CertificateRequestHasCondition cr (readyCondition cmmeta_ConditionTrue '''')"
      "\<not> CertificateRequestHasCondition cr
          (readyCondition cmmeta_ConditionFalse CertificateRequestReasonFailed)"
      "\<not> CertificateRequestHasCondition cr
          (readyCondition cmmeta_ConditionFalse CertificateRequestReasonDenied)"
      unfolding settled_HasCondition by simp_all
    show ?thesis
    proof (cases "CertificateRequestIsDenied cr")
      case True
      with group unsettled H show ?thesis
        by (intro denied [OF _ _ _ refl refl])
          (auto simp add: Reconcile_def Let_def setStatus_def)
    next
      case undenied: False
      show ?thesis
      proof (cases "CheckApprovedCondition r \<and> \<not> CertificateRequestIsApproved cr
                    \<or> Certificate (crStatus cr) \<noteq> [] \<or> IsCA (crSpec cr)")
        case True
        with group unsettled undenied H show ?thesis
          by (intro waiting) (auto simp add: Reconcile_def Let_def)
      next
        case False
        with group unsettled undenied H show ?thesis
          by (intro resolve) (auto simp add: Reconcile_def Let_def)
      qed
    qed
  qed
qed

section \<open>Where the credential secret is looked up\<close>

lemma secretLookups_append [simp]:
  "secretLookups (tr @ tr') = secretLookups tr @ secretLookups tr'"
  by (induction tr rule: secretLookups.induct) simp_all

lemma secretLookups_sign [simp]:
  "secretLookups (outTrace (Reconcile_sign r cr spec key tr0)) = secretLookups tr0"
  by (cases rule: Reconcile_sign_cases [where r = r and cr = cr and spec = spec and key = key and ?tr0.0 = tr0]) (simp_all add: failWith_eq)

lemma secretLookups_secret [simp]:
  "secretLookups (outTrace (Reconcile_secret r cr n spec tr0)) = secretLookups tr0 @ [n]"
  by (cases rule: Reconcile_secret_cases [where r = r and cr = cr and spec = spec and n = n and ?tr0.0 = tr0]) (simp_all add: failWith_eq)

lemma GetOriginIssuer_sign [simp]:
  "GetOriginIssuer k \<in> set (outTrace (Reconcile_sign r cr spec key tr0))
     \<longleftrightarrow> GetOriginIssuer k \<in> set tr0"
  "GetClusterOriginIssuer k \<in> set (outTrace (Reconcile_sign r cr spec key tr0))
     \<longleftrightarrow> GetClusterOriginIssuer k \<in> set tr0"
  by (cases rule: Reconcile_sign_cases [where r = r and cr = cr and spec = spec and key = key and ?tr0.0 = tr0]; simp add: failWith_eq)+

lemma GetOriginIssuer_secret [simp]:
  "GetOriginIssuer k \<in> set (outTrace (Reconcile_secret r cr n spec tr0))
     \<longleftrightarrow> GetOriginIssuer k \<in> set tr0"
  "GetClusterOriginIssuer k \<in> set (outTrace (Reconcile_secret r cr n spec tr0))
     \<longleftrightarrow> GetClusterOriginIssuer k \<in> set tr0"
  by (cases rule: Reconcile_secret_cases [where r = r and cr = cr and spec = spec and n = n and ?tr0.0 = tr0]; simp add: failWith_eq)+

text \<open>
  C6. \<open>Reconcile\<close> looks up at most one secret. For a request that references an
  OriginIssuer it is the secret named by the issuer's service-key reference in the
  request's own namespace; for a request that references a ClusterOriginIssuer it is
  the secret of that name in the controller's cluster-resource namespace. The lookup
  is made whenever the issuer was fetched and is ready. The code takes the namespace
  from the fetched OriginIssuer object; the hypothesis says that the store returns an
  object in the namespace it was asked for.
\<close>

theorem Reconcile_secret_namespace:
  assumes "\<forall>k iss. ClientGetOriginIssuer r k = Inr iss \<longrightarrow> issNamespace iss = nnNamespace k"
  shows "(secretLookups (outTrace (Reconcile r cr)) = []
          \<or> (\<exists>iss. refKind (IssuerRef (crSpec cr)) = ''OriginIssuer''
                \<and> ClientGetOriginIssuer r
                     \<lparr>nnNamespace = crNamespace cr,
                      nnName = refName (IssuerRef (crSpec cr))\<rparr> = Inr iss
                \<and> secretLookups (outTrace (Reconcile r cr)) =
                     [\<lparr>nnNamespace = crNamespace cr,
                       nnName = skName (ServiceKeyRef (Auth (issSpec iss)))\<rparr>])
          \<or> (\<exists>iss. refKind (IssuerRef (crSpec cr)) = ''ClusterOriginIssuer''
                \<and> ClientGetClusterOriginIssuer r
                     \<lparr>nnNamespace = '''',
                      nnName = refName (IssuerRef (crSpec cr))\<rparr> = Inr iss
                \<and> secretLookups (outTrace (Reconcile r cr)) =
                     [\<lparr>nnNamespace = ClusterResourceNamespace r,
                       nnName = skName (ServiceKeyRef (Auth (cissSpec iss)))\<rparr>]))
       \<and> (\<forall>k iss. GetOriginIssuer k \<in> set (outTrace (Reconcile r cr))
                  \<and> ClientGetOriginIssuer r k = Inr iss
                  \<and> IssuerStatusHasCondition (issStatus iss) readyTrue \<longrightarrow>
             secretLookups (outTrace (Reconcile r cr)) =
               [\<lparr>nnNamespace = crNamespace cr,
                 nnName = skName (ServiceKeyRef (Auth (issSpec iss)))\<rparr>])
       \<and> (\<forall>k iss. GetClusterOriginIssuer k \<in> set (outTrace (Reconcile r cr))
                  \<and> ClientGetClusterOriginIssuer r k = Inr iss
                  \<and> IssuerStatusHasCondition (cissStatus iss) readyTrue \<longrightarrow>
             secretLookups (outTrace (Reconcile r cr)) =
               [\<lparr>nnNamespace = ClusterResourceNamespace r,
                 nnName = skName (ServiceKeyRef (Auth (cissSpec iss)))\<rparr>])"
proof (cases rule: Reconcile_cases [where r = r and cr = cr])
  case resolve
  show ?thesis
  proof (cases rule: Reconcile_issuer_cases [where r = r and cr = cr])
    case (namespaced k iss)
    with assms have "issNamespace iss = crNamespace cr" by auto
    with namespaced resolve(7) show ?thesis by auto
  next
    case (cluster k iss)
    with resolve(7) show ?thesis by auto
  qed (simp_all add: resolve(7) failWith_eq)
qed simp_all

section \<open>Runs on the objects of the controller's test\<close>

lemmas example_defs =
  exampleController_def exampleRequest_def exampleIssuer_def exampleClusterIssuer_def
  exampleIssuerSpec_def exampleSecret_def exampleLibrary_def bogusSigner_def failingSigner_def
  dbWriteError_def withKind_def withConditions_def withCertificate_def withDuration_def
  deniedCondition_def

lemmas program_defs =
  Reconcile_def Reconcile_issuer_def Reconcile_secret_def Reconcile_sign_def failWith_def
  setStatus_def SetCertificateRequestCondition_def Sign_def New_def closest_week
  durationDays_week DefaultDurationInternval_def
  CertificateRequestHasCondition_def CertificateRequestIsDenied_def
  CertificateRequestIsApproved_def IssuerStatusHasCondition_def readyCondition_def
  readyTrue_def cmmeta_ConditionTrue_def cmmeta_ConditionFalse_def ConditionReady_def
  ConditionTrue_def GroupVersion_Group_def
  CertificateRequestConditionReady_def CertificateRequestConditionApproved_def
  CertificateRequestConditionDenied_def CertificateRequestReasonPending_def
  CertificateRequestReasonFailed_def CertificateRequestReasonIssued_def
  CertificateRequestReasonDenied_def originDBWriteErrorCode_def RequestTypeOriginECC_def
  RequestTypeOriginRSA_def nnString_def quoted_def

text \<open>
  The test case "working": the request ends with Ready=True/Issued and the
  certificate \<open>bogus\<close>.
\<close>

lemma example_issued:
  "Reconcile (exampleController (\<lambda>k. Inr bogusSigner) None) exampleRequest =
     \<lparr>outRequest = exampleRequest\<lparr>crStatus :=
        \<lparr>Conditions = [\<lparr>Type = ''Ready'', Status = ''True'', LastTransitionTime = Some 1000,
                         Reason = ''Issued'', Message = ''Certificate issued''\<rparr>],
         Certificate = ''bogus'', FailureTime = None\<rparr>\<rparr>,
      outError = None,
      outTrace =
        [GetOriginIssuer \<lparr>nnNamespace = ''default'', nnName = ''foobar''\<rparr>,
         GetSecret \<lparr>nnNamespace = ''default'', nnName = ''service-key-issuer''\<rparr>,
         APIWith ''djEuMC0weDAwQkFCMTBD'',
         SignerSign \<lparr>srHostnames = [''example.com''], srValidity = 7, srType = '''',
                      srCSR = ''CSR''\<rparr>
           (Inr \<lparr>respId = ''1'', respCertificate = ''bogus''\<rparr>),
         StatusUpdate (exampleRequest\<lparr>crStatus :=
           \<lparr>Conditions = [\<lparr>Type = ''Ready'', Status = ''True'',
                            LastTransitionTime = Some 1000, Reason = ''Issued'',
                            Message = ''Certificate issued''\<rparr>],
            Certificate = ''bogus'', FailureTime = None\<rparr>\<rparr>)]\<rparr>"
  by (simp add: program_defs example_defs Let_def)

text \<open>The same request with the issuer kind changed to ClusterOriginIssuer.\<close>

lemma example_issued_cluster:
  "outTrace (Reconcile (exampleController (\<lambda>k. Inr bogusSigner) None)
               (withKind ''ClusterOriginIssuer'' exampleRequest)) =
     [GetClusterOriginIssuer \<lparr>nnNamespace = '''', nnName = ''foobar''\<rparr>,
      GetSecret \<lparr>nnNamespace = ''origin-ca'', nnName = ''service-key-issuer''\<rparr>,
      APIWith ''djEuMC0weDAwQkFCMTBD'',
      SignerSign \<lparr>srHostnames = [''example.com''], srValidity = 7, srType = '''',
                   srCSR = ''CSR''\<rparr>
        (Inr \<lparr>respId = ''1'', respCertificate = ''bogus''\<rparr>),
      StatusUpdate ((withKind ''ClusterOriginIssuer'' exampleRequest)\<lparr>crStatus :=
        \<lparr>Conditions = [\<lparr>Type = ''Ready'', Status = ''True'',
                         LastTransitionTime = Some 1000, Reason = ''Issued'',
                         Message = ''Certificate issued''\<rparr>],
         Certificate = ''bogus'', FailureTime = None\<rparr>\<rparr>)]"
  by (simp add: program_defs example_defs Let_def)

text \<open>
  The test case "requeue after API error": the error comes back and the status is as
  before.
\<close>

lemma example_requeue:
  "Reconcile (exampleController (\<lambda>k. Inr failingSigner) None) exampleRequest =
     \<lparr>outRequest = exampleRequest,
      outError = Some (Wrapped ''unable to sign request: '' dbWriteError),
      outTrace =
        [GetOriginIssuer \<lparr>nnNamespace = ''default'', nnName = ''foobar''\<rparr>,
         GetSecret \<lparr>nnNamespace = ''default'', nnName = ''service-key-issuer''\<rparr>,
         APIWith ''djEuMC0weDAwQkFCMTBD'',
         SignerSign \<lparr>srHostnames = [''example.com''], srValidity = 7, srType = '''',
                      srCSR = ''CSR''\<rparr>
           (Inl dbWriteError)]\<rparr>"
  by (simp add: program_defs example_defs Let_def)

lemma example_requeue_message:
  "Error (Wrapped ''unable to sign request: '' dbWriteError) =
     ''unable to sign request: Cloudflare API Error code=1100 message=Failed to write certificate to Database ray_id=7d3eb086eedab98e''"
  by code_simp

theorem Reconcile_secret_namespace_witness:
  "secretLookups (outTrace (Reconcile (exampleController (\<lambda>k. Inr bogusSigner) None)
        exampleRequest))
       = [\<lparr>nnNamespace = ''default'', nnName = ''service-key-issuer''\<rparr>]
   \<and> secretLookups (outTrace (Reconcile (exampleController (\<lambda>k. Inr bogusSigner) None)
        (withKind ''ClusterOriginIssuer'' exampleRequest)))
       = [\<lparr>nnNamespace = ''origin-ca'', nnName = ''service-key-issuer''\<rparr>]"
proof -
  let ?r = "exampleController (\<lambda>k. Inr bogusSigner) None"
  have h: "\<forall>k iss. ClientGetOriginIssuer ?r k = Inr iss \<longrightarrow> issNamespace iss = nnNamespace k"
    by (auto simp: exampleController_def exampleIssuer_def split: if_splits)
  note T = Reconcile_secret_namespace [OF h]
  have "GetOriginIssuer \<lparr>nnNamespace = ''default'', nnName = ''foobar''\<rparr>
          \<in> set (outTrace (Reconcile ?r exampleRequest))"
    by (simp add: example_issued)
  moreover have "ClientGetOriginIssuer ?r \<lparr>nnNamespace = ''default'', nnName = ''foobar''\<rparr>
                   = Inr exampleIssuer"
    by (simp add: exampleController_def)
  moreover have "IssuerStatusHasCondition (issStatus exampleIssuer) readyTrue"
    by (simp add: program_defs example_defs)
  ultimately have n: "secretLookups (outTrace (Reconcile ?r exampleRequest)) =
      [\<lparr>nnNamespace = crNamespace exampleRequest,
        nnName = skName (ServiceKeyRef (Auth (issSpec exampleIssuer)))\<rparr>]"
    using T [of exampleRequest, THEN conjunct2, THEN conjunct1] by blast
  have "GetClusterOriginIssuer \<lparr>nnNamespace = '''', nnName = ''foobar''\<rparr>
          \<in> set (outTrace (Reconcile ?r (withKind ''ClusterOriginIssuer'' exampleRequest)))"
    by (simp add: example_issued_cluster)
  moreover have "ClientGetClusterOriginIssuer ?r \<lparr>nnNamespace = '''', nnName = ''foobar''\<rparr>
                   = Inr exampleClusterIssuer"
    by (simp add: exampleController_def)
  moreover have "IssuerStatusHasCondition (cissStatus exampleClusterIssuer) readyTrue"
    by (simp add: program_defs example_defs)
  ultimately have c: "secretLookups (outTrace (Reconcile ?r
        (withKind ''ClusterOriginIssuer'' exampleRequest))) =
      [\<lparr>nnNamespace = ClusterResourceNamespace ?r,
        nnName = skName (ServiceKeyRef (Auth (cissSpec exampleClusterIssuer)))\<rparr>]"
    using T [of "withKind ''ClusterOriginIssuer'' exampleRequest", THEN conjunct2,
        THEN conjunct2] by blast
  from n c show ?thesis
    by (simp add: example_defs)
qed

section \<open>A database-write failure of the remote API\<close>

lemma requeue_sign:
  assumes "SignerSign req (Inl err) \<in> set (outTrace (Reconcile_sign r cr spec key tr0))"
    and "\<forall>q x. SignerSign q x \<notin> set tr0" and "\<forall>c. StatusUpdate c \<notin> set tr0"
    and "errorsAsAPIError err = Some a" and "Code a = originDBWriteErrorCode"
  shows "outError (Reconcile_sign r cr spec key tr0)
           = Some (Wrapped ''unable to sign request: '' err)
         \<and> outRequest (Reconcile_sign r cr spec key tr0) = cr
         \<and> (\<forall>c. StatusUpdate c \<notin> set (outTrace (Reconcile_sign r cr spec key tr0)))"
  using assms
  by (cases rule: Reconcile_sign_cases
        [where r = r and cr = cr and spec = spec and key = key and ?tr0.0 = tr0])
    (auto simp: failWith_eq)

lemma requeue_secret:
  assumes "SignerSign req (Inl err) \<in> set (outTrace (Reconcile_secret r cr n spec tr0))"
    and "\<forall>q x. SignerSign q x \<notin> set tr0" and "\<forall>c. StatusUpdate c \<notin> set tr0"
    and "errorsAsAPIError err = Some a" and "Code a = originDBWriteErrorCode"
  shows "outError (Reconcile_secret r cr n spec tr0)
           = Some (Wrapped ''unable to sign request: '' err)
         \<and> outRequest (Reconcile_secret r cr n spec tr0) = cr
         \<and> (\<forall>c. StatusUpdate c \<notin> set (outTrace (Reconcile_secret r cr n spec tr0)))"
proof (cases rule: Reconcile_secret_cases
        [where r = r and cr = cr and spec = spec and n = n and ?tr0.0 = tr0])
  case (found secret serviceKey)
  with assms show ?thesis
    using requeue_sign [of req err r cr spec serviceKey "tr0 @ [GetSecret n]" a] by simp
qed (use assms in \<open>auto simp: failWith_eq\<close>)

lemma requeue_issuer:
  assumes "SignerSign req (Inl err) \<in> set (outTrace (Reconcile_issuer r cr))"
    and "errorsAsAPIError err = Some a" and "Code a = originDBWriteErrorCode"
  shows "outError (Reconcile_issuer r cr) = Some (Wrapped ''unable to sign request: '' err)
         \<and> outRequest (Reconcile_issuer r cr) = cr
         \<and> (\<forall>c. StatusUpdate c \<notin> set (outTrace (Reconcile_issuer r cr)))"
proof (cases rule: Reconcile_issuer_cases [where r = r and cr = cr])
  case (namespaced k iss)
  with assms show ?thesis
    using requeue_secret [of req err r cr _ "issSpec iss" "[GetOriginIssuer k]" a] by simp
next
  case (cluster k iss)
  with assms show ?thesis
    using requeue_secret [of req err r cr _ "cissSpec iss" "[GetClusterOriginIssuer k]" a]
    by simp
qed (use assms in \<open>auto simp: failWith_eq\<close>)

text \<open>
  C4. When the remote signer failed with an error in which \<open>errors.As\<close> finds an API
  error of code 1100, \<open>Reconcile\<close> returns the error of \<open>Sign\<close> (the signer's error under
  the prefix of \<open>Sign\<close>), the request is as it was, so its Ready condition is absent or
  unchanged, and no status update was sent.
\<close>

theorem Reconcile_requeue:
  assumes "SignerSign req (Inl err) \<in> set (outTrace (Reconcile r cr))"
    and "errorsAsAPIError err = Some apiError" and "Code apiError = 1100"
  shows "outError (Reconcile r cr) = Some (Wrapped ''unable to sign request: '' err)
         \<and> outRequest (Reconcile r cr) = cr
         \<and> (\<forall>c. StatusUpdate c \<notin> set (outTrace (Reconcile r cr)))"
proof (cases rule: Reconcile_cases [where r = r and cr = cr])
  case resolve
  with assms show ?thesis
    using requeue_issuer [of req err r cr apiError]
    by (simp add: originDBWriteErrorCode_def)
qed (use assms in auto)

theorem Reconcile_requeue_witness:
  "SignerSign \<lparr>srHostnames = [''example.com''], srValidity = 7, srType = '''',
                srCSR = ''CSR''\<rparr> (Inl dbWriteError)
     \<in> set (outTrace (Reconcile (exampleController (\<lambda>k. Inr failingSigner) None)
                         exampleRequest))
   \<and> errorsAsAPIError dbWriteError
       = Some \<lparr>Code = 1100, apiMessage = ''Failed to write certificate to Database'',
               RayID = ''7d3eb086eedab98e''\<rparr>
   \<and> outError (Reconcile (exampleController (\<lambda>k. Inr failingSigner) None) exampleRequest)
       = Some (Wrapped ''unable to sign request: '' dbWriteError)
   \<and> outRequest (Reconcile (exampleController (\<lambda>k. Inr failingSigner) None) exampleRequest)
       = exampleRequest"
proof -
  let ?r = "exampleController (\<lambda>k. Inr failingSigner) None"
  let ?a = "\<lparr>Code = 1100, apiMessage = ''Failed to write certificate to Database'',
             RayID = ''7d3eb086eedab98e''\<rparr>"
  have h1: "SignerSign \<lparr>srHostnames = [''example.com''], srValidity = 7, srType = '''',
                srCSR = ''CSR''\<rparr> (Inl dbWriteError)
     \<in> set (outTrace (Reconcile ?r exampleRequest))"
    by (simp add: example_requeue)
  have h2: "errorsAsAPIError dbWriteError = Some ?a" by (simp add: dbWriteError_def)
  have h3: "Code ?a = 1100" by simp
  from h1 h2 Reconcile_requeue [OF h1 h2 h3] show ?thesis by blast
qed

section \<open>Denied requests\<close>

lemma SetCertificateRequestCondition_loop_sets:
  "SetCertificateRequestCondition_loop conds new = Some conds' \<Longrightarrow>
     \<exists>c\<in>set conds'. Type c = Type new \<and> Status c = Status new \<and> Reason c = Reason new
                     \<and> Message c = Message new"
  by (induction conds arbitrary: conds') (auto split: if_splits)

lemma SetCertificateRequestCondition_sets:
  "\<exists>c\<in>set (Conditions (crStatus
       (SetCertificateRequestCondition now cr conditionType status reason message))).
     Type c = conditionType \<and> Status c = status \<and> Reason c = reason \<and> Message c = message"
proof (cases "SetCertificateRequestCondition_loop (Conditions (crStatus cr))
                \<lparr>Type = conditionType, Status = status, LastTransitionTime = Some now,
                 Reason = reason, Message = message\<rparr>")
  case None
  then show ?thesis by (simp add: SetCertificateRequestCondition_def)
next
  case (Some conds')
  from SetCertificateRequestCondition_loop_sets [OF this] Some show ?thesis
    by (simp add: SetCertificateRequestCondition_def)
qed

lemma SetCertificateRequestCondition_frame:
  "Certificate (crStatus (SetCertificateRequestCondition now cr t s reason message))
     = Certificate (crStatus cr)"
  "FailureTime (crStatus (SetCertificateRequestCondition now cr t s reason message))
     = FailureTime (crStatus cr)"
  "crSpec (SetCertificateRequestCondition now cr t s reason message) = crSpec cr"
  "crNamespace (SetCertificateRequestCondition now cr t s reason message) = crNamespace cr"
  "crName (SetCertificateRequestCondition now cr t s reason message) = crName cr"
  by (simp_all add: SetCertificateRequestCondition_def Let_def)

lemma Reconcile_ignores_settled:
  assumes "settled cr"
  shows "Reconcile r cr = \<lparr>outRequest = cr, outError = None, outTrace = []\<rparr>"
  using assms by (cases rule: Reconcile_cases [where r = r and cr = cr]) simp_all

text \<open>
  C7, as stated, fails: for a denied request \<open>Reconcile\<close> returns what the status
  update returns, and that can be an error.
\<close>

theorem Reconcile_denied_counterexample:
  "CertificateRequestIsDenied (withConditions [deniedCondition] exampleRequest)
   \<and> outError (Reconcile (exampleController bogusFactory (Some (Opaque ''conflict'')))
        (withConditions [deniedCondition] exampleRequest))
       = Some (Opaque ''conflict'')"
  by (simp add: program_defs example_defs bogusFactory_def Let_def)

text \<open>
  C7, amended. For a denied request of the controller's group that is not settled,
  \<open>Reconcile\<close> sets Ready=False/Denied, sets the failure time to the clock's time when
  it was not set and keeps it otherwise, sends one status update and returns what the
  update returns: success when the update succeeds. The resulting request is settled,
  so any later \<open>Reconcile\<close> on it changes nothing, the failure time included.
\<close>

theorem Reconcile_denied:
  assumes "refGroup (IssuerRef (crSpec cr)) = ''''
           \<or> refGroup (IssuerRef (crSpec cr)) = GroupVersion_Group"
    and "\<not> settled cr" and "CertificateRequestIsDenied cr"
  shows "(\<exists>c\<in>set (Conditions (crStatus (outRequest (Reconcile r cr)))).
            Type c = ''Ready'' \<and> Status c = ''False'' \<and> Reason c = ''Denied'')
         \<and> FailureTime (crStatus (outRequest (Reconcile r cr)))
             = (case FailureTime (crStatus cr) of
                  None \<Rightarrow> Some (ClockNow r) | Some t \<Rightarrow> Some t)
         \<and> Certificate (crStatus (outRequest (Reconcile r cr))) = Certificate (crStatus cr)
         \<and> outTrace (Reconcile r cr) = [StatusUpdate (outRequest (Reconcile r cr))]
         \<and> outError (Reconcile r cr) = ClientStatusUpdate r (outRequest (Reconcile r cr))
         \<and> (\<forall>r'. Reconcile r' (outRequest (Reconcile r cr))
                   = \<lparr>outRequest = outRequest (Reconcile r cr), outError = None,
                      outTrace = []\<rparr>)"
proof (cases rule: Reconcile_cases [where r = r and cr = cr])
  case (denied cr1 cr2)
  have ready: "\<exists>c\<in>set (Conditions (crStatus cr2)).
                 Type c = ''Ready'' \<and> Status c = ''False'' \<and> Reason c = ''Denied''"
    using SetCertificateRequestCondition_sets [of "cmutilClockNow r" cr1
        CertificateRequestConditionReady cmmeta_ConditionFalse CertificateRequestReasonDenied
        "''The CertificateRequest was denied by an approval controller''"]
    unfolding denied(5)
    by (auto simp add: CertificateRequestConditionReady_def cmmeta_ConditionFalse_def
        CertificateRequestReasonDenied_def)
  then have "settled cr2" by (auto simp: settled_def list_ex_iff)
  then have again: "\<forall>r'. Reconcile r' cr2 = \<lparr>outRequest = cr2, outError = None, outTrace = []\<rparr>"
    by (simp add: Reconcile_ignores_settled)
  have "FailureTime (crStatus cr2) =
          (case FailureTime (crStatus cr) of None \<Rightarrow> Some (ClockNow r) | Some t \<Rightarrow> Some t)"
    unfolding denied(5) denied(4)
    by (simp add: SetCertificateRequestCondition_frame split: option.splits)
  moreover have "Certificate (crStatus cr2) = Certificate (crStatus cr)"
    unfolding denied(5) denied(4) by (simp add: SetCertificateRequestCondition_frame)
  ultimately show ?thesis using ready again by (simp add: denied(6))
qed (use assms in simp_all)

theorem Reconcile_denied_witness:
  "\<not> settled (withConditions [deniedCondition] exampleRequest)
   \<and> CertificateRequestIsDenied (withConditions [deniedCondition] exampleRequest)
   \<and> FailureTime (crStatus (outRequest (Reconcile (exampleController (\<lambda>k. Inr bogusSigner) None)
        (withConditions [deniedCondition] exampleRequest)))) = Some 1000
   \<and> outError (Reconcile (exampleController (\<lambda>k. Inr bogusSigner) None)
        (withConditions [deniedCondition] exampleRequest)) = None"
proof -
  let ?r = "exampleController (\<lambda>k. Inr bogusSigner) None"
  let ?cr = "withConditions [deniedCondition] exampleRequest"
  have h1: "refGroup (IssuerRef (crSpec ?cr)) = ''''
            \<or> refGroup (IssuerRef (crSpec ?cr)) = GroupVersion_Group"
    by (simp add: example_defs GroupVersion_Group_def)
  have h2: "\<not> settled ?cr" by (simp add: settled_def example_defs)
  have h3: "CertificateRequestIsDenied ?cr" by (simp add: program_defs example_defs)
  have f: "FailureTime (crStatus ?cr) = None" by (simp add: example_defs)
  have u: "ClientStatusUpdate ?r = (\<lambda>cr. None)" "ClockNow ?r = 1000"
    by (simp_all add: exampleController_def)
  from Reconcile_denied [OF h1 h2 h3, of ?r] h2 h3 show ?thesis
    unfolding f u by simp
qed

section \<open>Which error returns leave a Ready=False condition\<close>

lemma readyFalse_failWith:
  "readyFalse (outRequest (failWith r cr tr cmmeta_ConditionFalse reason message err))"
  using SetCertificateRequestCondition_sets [of "cmutilClockNow r" cr
      CertificateRequestConditionReady cmmeta_ConditionFalse reason message]
  by (auto simp: failWith_eq readyFalse_def list_ex_iff CertificateRequestConditionReady_def
      cmmeta_ConditionFalse_def)

lemma error_sign:
  assumes "outError (Reconcile_sign r cr spec key tr0) = Some err"
  shows "readyFalse (outRequest (Reconcile_sign r cr spec key tr0))
         \<or> FactoryAPIWith r key = Inl err \<and> outRequest (Reconcile_sign r cr spec key tr0) = cr
         \<or> (\<exists>a. errorsAsAPIError err = Some a \<and> Code a = originDBWriteErrorCode)
            \<and> outRequest (Reconcile_sign r cr spec key tr0) = cr"
proof (cases rule: Reconcile_sign_cases
        [where r = r and cr = cr and spec = spec and key = key and ?tr0.0 = tr0])
  case (undecoded c err)
  then show ?thesis by (simp add: readyFalse_failWith)
next
  case (failed c csr err)
  then show ?thesis by (simp add: readyFalse_failWith)
qed (use assms in auto)

lemma error_secret:
  assumes "outError (Reconcile_secret r cr n spec tr0) = Some err"
  shows "readyFalse (outRequest (Reconcile_secret r cr n spec tr0))
         \<or> (\<exists>key. FactoryAPIWith r key = Inl err)
            \<and> outRequest (Reconcile_secret r cr n spec tr0) = cr
         \<or> (\<exists>a. errorsAsAPIError err = Some a \<and> Code a = originDBWriteErrorCode)
            \<and> outRequest (Reconcile_secret r cr n spec tr0) = cr"
proof (cases rule: Reconcile_secret_cases
        [where r = r and cr = cr and spec = spec and n = n and ?tr0.0 = tr0])
  case (found secret serviceKey)
  with assms error_sign [of r cr spec serviceKey "tr0 @ [GetSecret n]" err]
  show ?thesis by auto
qed (simp_all add: readyFalse_failWith)

lemma error_issuer:
  assumes "outError (Reconcile_issuer r cr) = Some err"
  shows "readyFalse (outRequest (Reconcile_issuer r cr))
         \<or> (\<exists>key. FactoryAPIWith r key = Inl err) \<and> outRequest (Reconcile_issuer r cr) = cr
         \<or> (\<exists>a. errorsAsAPIError err = Some a \<and> Code a = originDBWriteErrorCode)
            \<and> outRequest (Reconcile_issuer r cr) = cr"
proof (cases rule: Reconcile_issuer_cases [where r = r and cr = cr])
  case (namespaced k iss)
  with assms error_secret [of r cr _ "issSpec iss" "[GetOriginIssuer k]" err]
  show ?thesis by auto
next
  case (cluster k iss)
  with assms error_secret [of r cr _ "cissSpec iss" "[GetClusterOriginIssuer k]" err]
  show ?thesis by auto
qed (simp_all add: readyFalse_failWith)

text \<open>
  Every error that \<open>Reconcile\<close> returns comes with a Ready=False condition on the
  request, with two exceptions that leave the request as it was: the error of
  \<open>r.Factory.APIWith\<close>, and the error of a signing that failed with the API's
  database-write code.
\<close>

lemma Reconcile_error_recorded:
  assumes "outError (Reconcile r cr) = Some err"
  shows "readyFalse (outRequest (Reconcile r cr))
         \<or> (\<exists>key. FactoryAPIWith r key = Inl err) \<and> outRequest (Reconcile r cr) = cr
         \<or> (\<exists>a. errorsAsAPIError err = Some a \<and> Code a = originDBWriteErrorCode)
            \<and> outRequest (Reconcile r cr) = cr"
proof (cases rule: Reconcile_cases [where r = r and cr = cr])
  case (denied cr1 cr2)
  have "readyFalse cr2"
    using SetCertificateRequestCondition_sets [of "cmutilClockNow r" cr1
      CertificateRequestConditionReady cmmeta_ConditionFalse CertificateRequestReasonDenied
      "''The CertificateRequest was denied by an approval controller''"]
    unfolding denied(5)
    by (auto simp: readyFalse_def list_ex_iff CertificateRequestConditionReady_def
        cmmeta_ConditionFalse_def)
  with denied show ?thesis by simp
next
  case resolve
  with assms error_issuer [of r cr err] show ?thesis by simp
qed (use assms in simp_all)

text \<open>
  C5 does not hold of the code: when \<open>r.Factory.APIWith\<close> fails, \<open>Reconcile\<close> returns
  the error and the request has no Ready condition at all, while the failure of
  \<open>provisioners.New\<close> two lines further down, like every other failure that is not
  retried on purpose, sets Ready=False first. Here the run on the objects of the
  controller's test, with a factory that fails.
\<close>

theorem Reconcile_factory_failure:
  "Reconcile (exampleController brokenFactory None) exampleRequest =
     \<lparr>outRequest = exampleRequest,
      outError = Some (Opaque ''no client for this key''),
      outTrace =
        [GetOriginIssuer \<lparr>nnNamespace = ''default'', nnName = ''foobar''\<rparr>,
         GetSecret \<lparr>nnNamespace = ''default'', nnName = ''service-key-issuer''\<rparr>,
         APIWith ''djEuMC0weDAwQkFCMTBD'']\<rparr>
   \<and> Conditions (crStatus exampleRequest) = []
   \<and> errorsAsAPIError (Opaque ''no client for this key'') = None"
  by (simp add: program_defs example_defs brokenFactory_def Let_def)

end
